theory Spec2Isabelle
  imports Main "HOL-Library.Word"
begin

section \<open>C strings, error codes and the environment\<close>

text \<open>
  The model of \<^verbatim>\<open>src/usbg.c\<close>. A C string is a \<open>string\<close> (the bytes before the
  terminating NUL); every \<^verbatim>\<open>char[]\<close> buffer of the source is assumed large enough for
  what \<^verbatim>\<open>strcpy\<close> and \<^verbatim>\<open>sprintf\<close> put into it (the source's own
  \<^verbatim>\<open>@todo Handle buffer overflows\<close>). Diagnostics printed by \<^verbatim>\<open>ERROR\<close> and
  \<^verbatim>\<open>ERRORNO\<close> go to stderr and are not part of the state.
\<close>

type_synonym addr = nat

text \<open>\<^verbatim>\<open>strcmp\<close>: bytes compare as unsigned char; only the sign of the result is used.\<close>

fun strcmp :: "string \<Rightarrow> string \<Rightarrow> int" where
  "strcmp [] [] = 0"
| "strcmp [] (y # ys) = -1"
| "strcmp (x # xs) [] = 1"
| "strcmp (x # xs) (y # ys) =
     (if x = y then strcmp xs ys
      else if (of_char x :: nat) < of_char y then -1 else 1)"

text \<open>The bytes of a buffer up to its first NUL: the C string the buffer holds.\<close>

definition c_str :: "string \<Rightarrow> string" where
  "c_str bytes = takeWhile (\<lambda>c. c \<noteq> CHR 0x00) bytes"

text \<open>\<^verbatim>\<open>strchr(buf, '\n')\<close> followed by \<^verbatim>\<open>*p = '\0'\<close> when a newline was found.\<close>

definition cut_at_newline :: "string \<Rightarrow> string" where
  "cut_at_newline s = takeWhile (\<lambda>c. c \<noteq> CHR 0x0A) s"

text \<open>The values of \<^verbatim>\<open>errno\<close> that \<^verbatim>\<open>usbg_translate_error\<close> tells apart;
  \<open>E_USBG_INVALID_PARAM\<close> is the integer that equals \<^verbatim>\<open>USBG_ERROR_INVALID_PARAM\<close>,
  \<open>E_OTHER\<close> any other value.\<close>

datatype errno = ENOMEM | EACCES | ENOENT | ENOTDIR | EINVAL | EIO
  | E_USBG_INVALID_PARAM | E_OTHER

datatype usbg_error = USBG_SUCCESS | USBG_ERROR_NO_MEM | USBG_ERROR_NO_ACCESS
  | USBG_ERROR_INVALID_PARAM | USBG_ERROR_NOT_FOUND | USBG_ERROR_IO
  | USBG_ERROR_OTHER_ERROR

fun usbg_translate_error :: "errno \<Rightarrow> usbg_error" where
  "usbg_translate_error ENOMEM = USBG_ERROR_NO_MEM"
| "usbg_translate_error EACCES = USBG_ERROR_NO_ACCESS"
| "usbg_translate_error ENOENT = USBG_ERROR_NOT_FOUND"
| "usbg_translate_error ENOTDIR = USBG_ERROR_NOT_FOUND"
| "usbg_translate_error EINVAL = USBG_ERROR_INVALID_PARAM"
| "usbg_translate_error E_USBG_INVALID_PARAM = USBG_ERROR_INVALID_PARAM"
| "usbg_translate_error EIO = USBG_ERROR_IO"
| "usbg_translate_error E_OTHER = USBG_ERROR_OTHER_ERROR"

datatype dtype = DT_LNK | DT_DIR | DT_REG | DT_UNKNOWN

record dirent =
  d_name :: string
  d_type :: dtype

text \<open>
  The environment of a call: the constants of \<^verbatim>\<open>usbg/usbg.h\<close> (a header that is not
  part of \<^verbatim>\<open>usbg.c\<close>) that the modelled code depends on, and the answers of the C
  library and the kernel.
  \<^item> \<open>MAX_STR_LENGTH\<close> is \<^verbatim>\<open>USBG_MAX_STR_LENGTH\<close>.
  \<^item> \<open>INVALID_PARAM_code\<close> is the value of the enumerator
    \<^verbatim>\<open>USBG_ERROR_INVALID_PARAM\<close>, a C \<^verbatim>\<open>int\<close> (32 bits).
  \<^item> \<open>malloc_ok n\<close>: does the allocation that would return block \<open>n\<close> succeed.
  \<^item> \<open>rd_file p\<close>: \<open>Inl e\<close> when \<^verbatim>\<open>fopen(p, "r")\<close> fails with \<open>errno = e\<close>;
    \<open>Inr None\<close> when the file opens and reading it fails; \<open>Inr (Some bytes)\<close> when
    the file opens and holds \<open>bytes\<close>.
  \<^item> \<open>LANG_US_ENG\<close> is the language code of that name.
  \<^item> \<open>fopen_w_ok p\<close>: does \<^verbatim>\<open>fopen(p, "w")\<close> succeed (what \<^verbatim>\<open>ferror\<close> says
    after the write only selects a diagnostic).
  \<^item> \<open>mkdir_ok p\<close>, \<open>symlink_ok target linkpath\<close>: does the call return 0 (else -1).
  \<^item> \<open>dir_entries p\<close>: the entries of directory \<open>p\<close> as \<^verbatim>\<open>readdir\<close> lists them, or
    the \<open>errno\<close> with which \<^verbatim>\<open>scandir\<close> fails.
  \<^item> \<open>readlink_of p\<close>: the bytes \<^verbatim>\<open>readlink\<close> stores, or its \<open>errno\<close>.
\<close>

record env =
  MAX_STR_LENGTH :: nat
  INVALID_PARAM_code :: "32 word"
  LANG_US_ENG :: int
  malloc_ok :: "addr \<Rightarrow> bool"
  rd_file :: "string \<Rightarrow> errno + string option"
  fopen_w_ok :: "string \<Rightarrow> bool"
  mkdir_ok :: "string \<Rightarrow> bool"
  symlink_ok :: "string \<Rightarrow> string \<Rightarrow> bool"
  dir_entries :: "string \<Rightarrow> errno + dirent list"
  readlink_of :: "string \<Rightarrow> errno + string"

section \<open>The heap and the record of file-system calls\<close>

text \<open>
  The four node types and the state are blocks of one heap, addressed by block number;
  each field of the structs is a map from blocks. A \<^verbatim>\<open>TAILQ_HEAD\<close> is named by its
  owner: \<open>Gadgets s\<close> is \<^verbatim>\<open>s->gadgets\<close>, \<open>Configs g\<close> is \<^verbatim>\<open>g->configs\<close>,
  \<open>Functions g\<close> is \<^verbatim>\<open>g->functions\<close>, \<open>Bindings c\<close> is \<^verbatim>\<open>c->bindings\<close>. Each struct
  has one \<^verbatim>\<open>TAILQ_ENTRY\<close>, so \<open>tqe_next\<close> and \<open>tqe_prev\<close> are maps from blocks. A
  \<open>slot\<close> is the address of a forward pointer, what \<^verbatim>\<open>tqh_last\<close> and
  \<^verbatim>\<open>tqe_prev\<close> hold: \<^verbatim>\<open>&head->tqh_first\<close> or \<^verbatim>\<open>&elm->field.tqe_next\<close>.

  \<open>live\<close> is the set of blocks obtained from \<^verbatim>\<open>malloc\<close> and not yet freed; \<open>brk\<close>
  counts the calls of \<^verbatim>\<open>malloc\<close>, and a successful call hands out the block of that
  number (blocks are not reused, and a fresh block keeps whatever the maps held for it:
  it is not initialised). \<open>fs_calls\<close> lists, oldest first, the calls made that change
  the file system.

  A function of the model that returns an \<open>option\<close> returns \<open>None\<close> when the C
  function has no result: a loop over a list runs forever, or a null pointer is
  dereferenced.
\<close>

datatype head = Gadgets addr | Configs addr | Functions addr | Bindings addr

datatype slot = Head_first head | Node_next addr

datatype fs_call = Mkdir string | Symlink string string | Fopen_w string
  | Fputs string string

record world =
  brk :: addr
  live :: "addr set"
  name_of :: "addr \<Rightarrow> string"
  path_of :: "addr \<Rightarrow> string"
  udc_of :: "addr \<Rightarrow> string"
  parent_of :: "addr \<Rightarrow> addr"
  target_of :: "addr \<Rightarrow> addr option"
  ftype_of :: "addr \<Rightarrow> int"
  tqh_first :: "head \<Rightarrow> addr option"
  tqh_last :: "head \<Rightarrow> slot"
  tqe_next :: "addr \<Rightarrow> addr option"
  tqe_prev :: "addr \<Rightarrow> slot"
  fs_calls :: "fs_call list"

definition malloc :: "env \<Rightarrow> world \<Rightarrow> addr option \<times> world" where
  "malloc e w =
     (if malloc_ok e (brk w)
      then (Some (brk w), w\<lparr>brk := brk w + 1, live := insert (brk w) (live w)\<rparr>)
      else (None, w\<lparr>brk := brk w + 1\<rparr>))"

definition free :: "addr \<Rightarrow> world \<Rightarrow> world" where
  "free a w = w\<lparr>live := live w - {a}\<rparr>"

definition log_call :: "fs_call \<Rightarrow> world \<Rightarrow> world" where
  "log_call c w = w\<lparr>fs_calls := fs_calls w @ [c]\<rparr>"

section \<open>The tail queues of \<^verbatim>\<open>sys/queue.h\<close>\<close>

text \<open>
  The macros as the C library's header defines them, statement by statement.
  \<open>rd_slot\<close> and \<open>wr_slot\<close> read and write through a pointer to a forward pointer.
\<close>

definition rd_slot :: "world \<Rightarrow> slot \<Rightarrow> addr option" where
  "rd_slot w sl = (case sl of Head_first h \<Rightarrow> tqh_first w h | Node_next a \<Rightarrow> tqe_next w a)"

definition wr_slot :: "slot \<Rightarrow> addr option \<Rightarrow> world \<Rightarrow> world" where
  "wr_slot sl v w =
     (case sl of
        Head_first h \<Rightarrow> w\<lparr>tqh_first := (tqh_first w)(h := v)\<rparr>
      | Node_next a \<Rightarrow> w\<lparr>tqe_next := (tqe_next w)(a := v)\<rparr>)"

text \<open>\<^verbatim>\<open>(head)->tqh_first = NULL; (head)->tqh_last = &(head)->tqh_first;\<close>\<close>

definition TAILQ_INIT :: "head \<Rightarrow> world \<Rightarrow> world" where
  "TAILQ_INIT h w =
     w\<lparr>tqh_first := (tqh_first w)(h := None), tqh_last := (tqh_last w)(h := Head_first h)\<rparr>"

definition TAILQ_EMPTY :: "world \<Rightarrow> head \<Rightarrow> bool" where
  "TAILQ_EMPTY w h = (tqh_first w h = None)"

definition TAILQ_FIRST :: "world \<Rightarrow> head \<Rightarrow> addr option" where
  "TAILQ_FIRST w h = tqh_first w h"

definition TAILQ_NEXT :: "world \<Rightarrow> addr \<Rightarrow> addr option" where
  "TAILQ_NEXT w a = tqe_next w a"

text \<open>
  \<^verbatim>\<open>*(((struct headname *)((head)->tqh_last))->tqh_last)\<close>: the slot \<^verbatim>\<open>tqh_last\<close>
  points to is read as a head, whose second word is the \<^verbatim>\<open>tqe_prev\<close> of the last
  element (or the \<^verbatim>\<open>tqh_last\<close> of the head itself when the queue is empty).
\<close>

definition second_word :: "world \<Rightarrow> slot \<Rightarrow> slot" where
  "second_word w sl = (case sl of Head_first h \<Rightarrow> tqh_last w h | Node_next a \<Rightarrow> tqe_prev w a)"

definition TAILQ_LAST :: "world \<Rightarrow> head \<Rightarrow> addr option" where
  "TAILQ_LAST w h = rd_slot w (second_word w (tqh_last w h))"

text \<open>
  \<^verbatim>\<open>if (((elm)->field.tqe_next = (head)->tqh_first) != NULL)
    (head)->tqh_first->field.tqe_prev = &(elm)->field.tqe_next;
  else (head)->tqh_last = &(elm)->field.tqe_next;
  (head)->tqh_first = (elm);
  (elm)->field.tqe_prev = &(head)->tqh_first;\<close>
\<close>

definition TAILQ_INSERT_HEAD :: "head \<Rightarrow> addr \<Rightarrow> world \<Rightarrow> world" where
  "TAILQ_INSERT_HEAD h elm w =
     (let w1 = w\<lparr>tqe_next := (tqe_next w)(elm := tqh_first w h)\<rparr>;
          w2 = (case tqe_next w1 elm of
                  Some f \<Rightarrow> w1\<lparr>tqe_prev := (tqe_prev w1)(f := Node_next elm)\<rparr>
                | None \<Rightarrow> w1\<lparr>tqh_last := (tqh_last w1)(h := Node_next elm)\<rparr>);
          w3 = w2\<lparr>tqh_first := (tqh_first w2)(h := Some elm)\<rparr>
      in w3\<lparr>tqe_prev := (tqe_prev w3)(elm := Head_first h)\<rparr>)"

text \<open>
  \<^verbatim>\<open>(elm)->field.tqe_next = NULL;
  (elm)->field.tqe_prev = (head)->tqh_last;
  *(head)->tqh_last = (elm);
  (head)->tqh_last = &(elm)->field.tqe_next;\<close>
\<close>

definition TAILQ_INSERT_TAIL :: "head \<Rightarrow> addr \<Rightarrow> world \<Rightarrow> world" where
  "TAILQ_INSERT_TAIL h elm w =
     (let w1 = w\<lparr>tqe_next := (tqe_next w)(elm := None)\<rparr>;
          w2 = w1\<lparr>tqe_prev := (tqe_prev w1)(elm := tqh_last w1 h)\<rparr>;
          w3 = wr_slot (tqh_last w2 h) (Some elm) w2
      in w3\<lparr>tqh_last := (tqh_last w3)(h := Node_next elm)\<rparr>)"

text \<open>
  \<^verbatim>\<open>(elm)->field.tqe_prev = (listelm)->field.tqe_prev;
  (elm)->field.tqe_next = (listelm);
  *(listelm)->field.tqe_prev = (elm);
  (listelm)->field.tqe_prev = &(elm)->field.tqe_next;\<close>
\<close>

definition TAILQ_INSERT_BEFORE :: "addr \<Rightarrow> addr \<Rightarrow> world \<Rightarrow> world" where
  "TAILQ_INSERT_BEFORE listelm elm w =
     (let w1 = w\<lparr>tqe_prev := (tqe_prev w)(elm := tqe_prev w listelm)\<rparr>;
          w2 = w1\<lparr>tqe_next := (tqe_next w1)(elm := Some listelm)\<rparr>;
          w3 = wr_slot (tqe_prev w2 listelm) (Some elm) w2
      in w3\<lparr>tqe_prev := (tqe_prev w3)(listelm := Node_next elm)\<rparr>)"

text \<open>
  \<^verbatim>\<open>if (((elm)->field.tqe_next) != NULL)
    (elm)->field.tqe_next->field.tqe_prev = (elm)->field.tqe_prev;
  else (head)->tqh_last = (elm)->field.tqe_prev;
  *(elm)->field.tqe_prev = (elm)->field.tqe_next;\<close>
\<close>

definition TAILQ_REMOVE :: "head \<Rightarrow> addr \<Rightarrow> world \<Rightarrow> world" where
  "TAILQ_REMOVE h elm w =
     (let w1 = (case tqe_next w elm of
                  Some n \<Rightarrow> w\<lparr>tqe_prev := (tqe_prev w)(n := tqe_prev w elm)\<rparr>
                | None \<Rightarrow> w\<lparr>tqh_last := (tqh_last w)(h := tqe_prev w elm)\<rparr>)
      in wr_slot (tqe_prev w1 elm) (tqe_next w1 elm) w1)"

text \<open>
  \<^verbatim>\<open>TAILQ_FOREACH(var, head, field) if (P(var)) return var;\<close> followed by
  \<^verbatim>\<open>return NULL\<close>: the shape of the five lookups. The loop follows \<^verbatim>\<open>tqe_next\<close>
  from \<open>cur\<close> and need not end on a heap that is not a queue.
\<close>

partial_function (option) tailq_find ::
  "(addr \<Rightarrow> bool) \<Rightarrow> (addr \<Rightarrow> addr option) \<Rightarrow> addr option \<Rightarrow> addr option option" where
  "tailq_find P nxt cur =
     (case cur of
        None \<Rightarrow> Some None
      | Some a \<Rightarrow> if P a then Some (Some a) else tailq_find P nxt (nxt a))"

declare tailq_find.simps [code]

text \<open>
  The body of the last branch of \<^verbatim>\<open>INSERT_TAILQ_STRING_ORDER\<close>:
  \<^verbatim>\<open>TAILQ_FOREACH(_cur, HeadPtr, NodeField) {
    if (strcmp(ToInsert->NameField, _cur->NameField) > 0) continue;
    TAILQ_INSERT_BEFORE(_cur, ToInsert, NodeField);
  }\<close>
  There is no \<^verbatim>\<open>break\<close> after the insertion: the loop goes on to
  \<^verbatim>\<open>_cur->NodeField.tqe_next\<close>, read after the insertion.
\<close>

partial_function (option) insert_foreach ::
  "addr \<Rightarrow> addr option \<Rightarrow> world \<Rightarrow> world option" where
  "insert_foreach ins cur w =
     (case cur of
        None \<Rightarrow> Some w
      | Some c \<Rightarrow>
          if strcmp (name_of w ins) (name_of w c) > 0
          then insert_foreach ins (tqe_next w c) w
          else (let w' = TAILQ_INSERT_BEFORE c ins w
                in insert_foreach ins (tqe_next w' c) w'))"

declare insert_foreach.simps [code]

text \<open>
  \<^verbatim>\<open>INSERT_TAILQ_STRING_ORDER(HeadPtr, HeadType, NameField, ToInsert, NodeField)\<close>.
  \<^verbatim>\<open>TAILQ_LAST(HeadPtr, HeadType)->NameField\<close> dereferences the last element.
\<close>

definition INSERT_TAILQ_STRING_ORDER :: "head \<Rightarrow> addr \<Rightarrow> world \<Rightarrow> world option" where
  "INSERT_TAILQ_STRING_ORDER h ins w =
     (if (case tqh_first w h of
            None \<Rightarrow> True
          | Some f \<Rightarrow> strcmp (name_of w ins) (name_of w f) < 0)
      then Some (TAILQ_INSERT_HEAD h ins w)
      else (case TAILQ_LAST w h of
              None \<Rightarrow> None
            | Some l \<Rightarrow>
                if strcmp (name_of w ins) (name_of w l) > 0
                then Some (TAILQ_INSERT_TAIL h ins w)
                else insert_foreach ins (tqh_first w h) w))"

section \<open>Lookup by name and by link\<close>

definition usbg_get_gadget :: "world \<Rightarrow> addr \<Rightarrow> string \<Rightarrow> addr option option" where
  "usbg_get_gadget w s nm =
     tailq_find (\<lambda>g. strcmp (name_of w g) nm = 0) (tqe_next w) (tqh_first w (Gadgets s))"

definition usbg_get_function :: "world \<Rightarrow> addr \<Rightarrow> string \<Rightarrow> addr option option" where
  "usbg_get_function w g nm =
     tailq_find (\<lambda>f. strcmp (name_of w f) nm = 0) (tqe_next w) (tqh_first w (Functions g))"

definition usbg_get_config :: "world \<Rightarrow> addr \<Rightarrow> string \<Rightarrow> addr option option" where
  "usbg_get_config w g nm =
     tailq_find (\<lambda>c. strcmp (name_of w c) nm = 0) (tqe_next w) (tqh_first w (Configs g))"

definition usbg_get_binding :: "world \<Rightarrow> addr \<Rightarrow> string \<Rightarrow> addr option option" where
  "usbg_get_binding w c nm =
     tailq_find (\<lambda>b. strcmp (name_of w b) nm = 0) (tqe_next w) (tqh_first w (Bindings c))"

text \<open>\<^verbatim>\<open>b->target == f\<close> compares pointers; \<open>f\<close> may be NULL.\<close>

definition usbg_get_link_binding :: "world \<Rightarrow> addr \<Rightarrow> addr option \<Rightarrow> addr option option" where
  "usbg_get_link_binding w c f =
     tailq_find (\<lambda>b. target_of w b = f) (tqe_next w) (tqh_first w (Bindings c))"

section \<open>Releasing nodes\<close>

definition usbg_free_binding :: "addr \<Rightarrow> world \<Rightarrow> world" where
  "usbg_free_binding b w = free b w"

definition usbg_free_function :: "addr \<Rightarrow> world \<Rightarrow> world" where
  "usbg_free_function f w = free f w"

text \<open>\<^verbatim>\<open>while (!TAILQ_EMPTY(&c->bindings)) { b = TAILQ_FIRST(..); TAILQ_REMOVE(..);
  usbg_free_binding(b); }\<close>\<close>

partial_function (option) free_bindings :: "addr \<Rightarrow> world \<Rightarrow> world option" where
  "free_bindings c w =
     (case tqh_first w (Bindings c) of
        None \<Rightarrow> Some w
      | Some b \<Rightarrow> free_bindings c (usbg_free_binding b (TAILQ_REMOVE (Bindings c) b w)))"

declare free_bindings.simps [code]

definition usbg_free_config :: "addr \<Rightarrow> world \<Rightarrow> world option" where
  "usbg_free_config c w = map_option (free c) (free_bindings c w)"

partial_function (option) free_configs :: "addr \<Rightarrow> world \<Rightarrow> world option" where
  "free_configs g w =
     (case tqh_first w (Configs g) of
        None \<Rightarrow> Some w
      | Some c \<Rightarrow>
          Option.bind (usbg_free_config c (TAILQ_REMOVE (Configs g) c w)) (free_configs g))"

declare free_configs.simps [code]

partial_function (option) free_functions :: "addr \<Rightarrow> world \<Rightarrow> world option" where
  "free_functions g w =
     (case tqh_first w (Functions g) of
        None \<Rightarrow> Some w
      | Some f \<Rightarrow> free_functions g (usbg_free_function f (TAILQ_REMOVE (Functions g) f w)))"

declare free_functions.simps [code]

definition usbg_free_gadget :: "addr \<Rightarrow> world \<Rightarrow> world option" where
  "usbg_free_gadget g w =
     map_option (free g) (Option.bind (free_configs g w) (free_functions g))"

section \<open>Reading attribute files\<close>

text \<open>
  \<^verbatim>\<open>fgets(buf, n, fp)\<close> on a freshly opened stream: at most \<open>n - 1\<close> bytes, stopping
  after the first newline; \<open>None\<close> is the NULL it returns at end of file with nothing
  read (and for \<open>n = 0\<close>); for \<open>n = 1\<close> it stores the empty string. The result
  is the C string the buffer then holds.
\<close>

definition first_line :: "string \<Rightarrow> string" where
  "first_line bytes =
     takeWhile (\<lambda>c. c \<noteq> CHR 0x0A) bytes @
       (if CHR 0x0A \<in> set bytes then [CHR 0x0A] else [])"

definition fgets :: "nat \<Rightarrow> string \<Rightarrow> string option" where
  "fgets n bytes =
     (if n = 0 then None
      else if n = 1 then Some []
      else if bytes = [] then None
      else Some (c_str (take (n - 1) (first_line bytes))))"

text \<open>\<^verbatim>\<open>sprintf(p, "%s/%s/%s", path, name, file)\<close>.\<close>

definition path3 :: "string \<Rightarrow> string \<Rightarrow> string \<Rightarrow> string" where
  "path3 path name file = path @ ''/'' @ name @ ''/'' @ file"

text \<open>
  \<^verbatim>\<open>usbg_read_buf\<close>: the caller's \<open>buf\<close> goes in and the buffer after the call comes
  out; a failed read leaves it as it was.
\<close>

definition usbg_read_buf ::
  "env \<Rightarrow> string \<Rightarrow> string \<Rightarrow> string \<Rightarrow> string \<Rightarrow> usbg_error \<times> string" where
  "usbg_read_buf e path name file buf =
     (case rd_file e (path3 path name file) of
        Inr content \<Rightarrow>
          (case (case content of None \<Rightarrow> None
                 | Some bytes \<Rightarrow> fgets (MAX_STR_LENGTH e) bytes) of
             None \<Rightarrow> (USBG_ERROR_IO, buf)
           | Some line \<Rightarrow> (USBG_SUCCESS, line))
      | Inl err \<Rightarrow> (usbg_translate_error err, buf))"

definition usbg_read_string ::
  "env \<Rightarrow> string \<Rightarrow> string \<Rightarrow> string \<Rightarrow> string \<Rightarrow> usbg_error \<times> string" where
  "usbg_read_string e path name file buf =
     (case usbg_read_buf e path name file buf of
        (ret, buf') \<Rightarrow>
          if ret = USBG_SUCCESS then (ret, cut_at_newline buf')
          else (ret, []))"

text \<open>The spec's wording of string decoding: exactly one trailing newline is stripped
  if present.\<close>

definition spec_strip_trailing_newline :: "string \<Rightarrow> string" where
  "spec_strip_trailing_newline s =
     (if s \<noteq> [] \<and> last s = CHR 0x0A then butlast s else s)"

section \<open>Writing attribute files\<close>

text \<open>
  \<^verbatim>\<open>usbg_write_buf\<close>: the \<^verbatim>\<open>fopen(p, "w")\<close> is recorded, and the \<^verbatim>\<open>fputs\<close> when
  the file opened. Nothing is returned: a failure is only printed.
\<close>

definition usbg_write_buf ::
  "env \<Rightarrow> string \<Rightarrow> string \<Rightarrow> string \<Rightarrow> string \<Rightarrow> world \<Rightarrow> world" where
  "usbg_write_buf e path name file buf w =
     (let p = path3 path name file;
          w1 = log_call (Fopen_w p) w
      in if fopen_w_ok e p then log_call (Fputs p buf) w1 else w1)"

text \<open>The conversions of \<^verbatim>\<open>sprintf\<close> that the source uses, on a 32-bit \<^verbatim>\<open>int\<close>:
  \<^verbatim>\<open>%x\<close>, \<^verbatim>\<open>0x%04x\n\<close> and \<^verbatim>\<open>0x%02x\n\<close> (the width is a minimum), and \<^verbatim>\<open>%d\n\<close>.\<close>

definition digit_char :: "nat \<Rightarrow> char" where
  "digit_char d = ''0123456789abcdef'' ! d"

fun hex_digits :: "nat \<Rightarrow> string" where
  "hex_digits n =
     (if n < 16 then [digit_char n] else hex_digits (n div 16) @ [digit_char (n mod 16)])"

fun dec_digits :: "nat \<Rightarrow> string" where
  "dec_digits n =
     (if n < 10 then [digit_char n] else dec_digits (n div 10) @ [digit_char (n mod 10)])"

declare hex_digits.simps [simp del] dec_digits.simps [simp del]

definition fmt_x :: "int \<Rightarrow> string" where
  "fmt_x v = hex_digits (nat (v mod 2 ^ 32))"

definition fmt_0x :: "nat \<Rightarrow> int \<Rightarrow> string" where
  "fmt_0x width v =
     ''0x'' @ replicate (width - length (fmt_x v)) CHR ''0'' @ fmt_x v @ [CHR 0x0A]"

definition fmt_d :: "int \<Rightarrow> string" where
  "fmt_d v = (if v < 0 then ''-'' else []) @ dec_digits (nat \<bar>v\<bar>) @ [CHR 0x0A]"

definition usbg_write_int ::
  "env \<Rightarrow> string \<Rightarrow> string \<Rightarrow> string \<Rightarrow> int \<Rightarrow> (int \<Rightarrow> string) \<Rightarrow> world \<Rightarrow> world" where
  "usbg_write_int e path name file v fmt w = usbg_write_buf e path name file (fmt v) w"

definition usbg_write_dec ::
  "env \<Rightarrow> string \<Rightarrow> string \<Rightarrow> string \<Rightarrow> int \<Rightarrow> world \<Rightarrow> world" where
  "usbg_write_dec e path name file v w = usbg_write_int e path name file v fmt_d w"

definition usbg_write_hex16 ::
  "env \<Rightarrow> string \<Rightarrow> string \<Rightarrow> string \<Rightarrow> int \<Rightarrow> world \<Rightarrow> world" where
  "usbg_write_hex16 e path name file v w = usbg_write_int e path name file v (fmt_0x 4) w"

definition usbg_write_hex8 ::
  "env \<Rightarrow> string \<Rightarrow> string \<Rightarrow> string \<Rightarrow> int \<Rightarrow> world \<Rightarrow> world" where
  "usbg_write_hex8 e path name file v w = usbg_write_int e path name file v (fmt_0x 2) w"

definition usbg_write_string ::
  "env \<Rightarrow> string \<Rightarrow> string \<Rightarrow> string \<Rightarrow> string \<Rightarrow> world \<Rightarrow> world" where
  "usbg_write_string e path name file buf w = usbg_write_buf e path name file buf w"

section \<open>Attributes\<close>

text \<open>
  The attribute structs of \<^verbatim>\<open>usbg/usbg.h\<close>, with the fields and the widths that
  \<^verbatim>\<open>usbg.c\<close> reads and casts to. \<^verbatim>\<open>usbg_function_attrs\<close> is a union; the source reads
  the member its \<^verbatim>\<open>switch\<close> selects, and the record has one field per member read.
\<close>

record gadget_attrs =
  bcdUSB :: "16 word"
  bDeviceClass :: "8 word"
  bDeviceSubClass :: "8 word"
  bDeviceProtocol :: "8 word"
  bMaxPacketSize0 :: "8 word"
  idVendor :: "16 word"
  idProduct :: "16 word"
  bcdDevice :: "16 word"

record gadget_strs =
  str_ser :: string
  str_mnf :: string
  str_prd :: string

record config_attrs =
  bMaxPower :: "8 word"
  bmAttributes :: "8 word"

record config_strs =
  configuration :: string

record function_attrs =
  serial_port_num :: int
  net_dev_addr :: "8 word list"
  net_host_addr :: "8 word list"
  net_ifname :: string
  net_qmult :: int
  phonet_ifname :: string

text \<open>
  \<^verbatim>\<open>function_names\<close>. The enumerators of \<^verbatim>\<open>usbg_function_type\<close> come from the
  header; \<^verbatim>\<open>usbg.c\<close> indexes \<^verbatim>\<open>function_names\<close> with a type and stores an index of
  \<^verbatim>\<open>function_names\<close> into \<^verbatim>\<open>f->type\<close>, so they number its entries in order.
\<close>

definition function_names :: "string list" where
  "function_names =
     [''gser'', ''acm'', ''obex'', ''ecm'', ''geth'', ''ncm'', ''eem'', ''rndis'', ''phonet'']"

definition F_SERIAL :: int where "F_SERIAL = 0"
definition F_ACM :: int where "F_ACM = 1"
definition F_OBEX :: int where "F_OBEX = 2"
definition F_ECM :: int where "F_ECM = 3"
definition F_SUBSET :: int where "F_SUBSET = 4"
definition F_NCM :: int where "F_NCM = 5"
definition F_EEM :: int where "F_EEM = 6"
definition F_RNDIS :: int where "F_RNDIS = 7"
definition F_PHONET :: int where "F_PHONET = 8"

text \<open>\<^verbatim>\<open>function_names[type]\<close>; \<open>None\<close> for an index outside the array.\<close>

definition function_name :: "int \<Rightarrow> string option" where
  "function_name t =
     (if 0 \<le> t \<and> t < int (length function_names) then Some (function_names ! nat t)
      else None)"

fun lookup_from :: "string \<Rightarrow> string list \<Rightarrow> int \<Rightarrow> int" where
  "lookup_from nm [] i = -1"
| "lookup_from nm (x # xs) i = (if strcmp nm x = 0 then i else lookup_from nm xs (i + 1))"

definition usbg_lookup_function_type :: "string option \<Rightarrow> int" where
  "usbg_lookup_function_type name =
     (case name of None \<Rightarrow> -1 | Some nm \<Rightarrow> lookup_from nm function_names 0)"

text \<open>\<^verbatim>\<open>ether_ntoa\<close> of the C library: the octets in \<^verbatim>\<open>%x\<close>, separated by colons.\<close>

fun ether_ntoa :: "8 word list \<Rightarrow> string" where
  "ether_ntoa [] = []"
| "ether_ntoa [b] = fmt_x (uint b)"
| "ether_ntoa (b # bs) = fmt_x (uint b) @ '':'' @ ether_ntoa bs"

definition usbg_set_gadget_attrs ::
  "env \<Rightarrow> addr option \<Rightarrow> gadget_attrs option \<Rightarrow> world \<Rightarrow> world" where
  "usbg_set_gadget_attrs e g g_attrs w =
     (case (g, g_attrs) of
        (Some g, Some a) \<Rightarrow>
          (let w1 = usbg_write_hex16 e (path_of w g) (name_of w g) ''bcdUSB'' (uint (bcdUSB a)) w;
               w2 = usbg_write_hex8 e (path_of w1 g) (name_of w1 g) ''bDeviceClass''
                      (uint (bDeviceClass a)) w1;
               w3 = usbg_write_hex8 e (path_of w2 g) (name_of w2 g) ''bDeviceSubClass''
                      (uint (bDeviceSubClass a)) w2;
               w4 = usbg_write_hex8 e (path_of w3 g) (name_of w3 g) ''bDeviceProtocol''
                      (uint (bDeviceProtocol a)) w3;
               w5 = usbg_write_hex8 e (path_of w4 g) (name_of w4 g) ''bMaxPacketSize0''
                      (uint (bMaxPacketSize0 a)) w4;
               w6 = usbg_write_hex16 e (path_of w5 g) (name_of w5 g) ''idVendor''
                      (uint (idVendor a)) w5;
               w7 = usbg_write_hex16 e (path_of w6 g) (name_of w6 g) ''idProduct''
                      (uint (idProduct a)) w6
           in usbg_write_hex16 e (path_of w7 g) (name_of w7 g) ''bcdDevice''
                (uint (bcdDevice a)) w7)
      | _ \<Rightarrow> w)"

text \<open>\<^verbatim>\<open>sprintf(path, "%s/%s/%s/0x%x", g->path, g->name, STRINGS_DIR, lang)\<close>.\<close>

definition strings_path :: "string \<Rightarrow> string \<Rightarrow> int \<Rightarrow> string" where
  "strings_path path name lang = path @ ''/'' @ name @ ''/'' @ ''strings'' @ ''/0x'' @ fmt_x lang"

definition usbg_set_gadget_strs :: "env \<Rightarrow> addr \<Rightarrow> int \<Rightarrow> gadget_strs \<Rightarrow> world \<Rightarrow> world" where
  "usbg_set_gadget_strs e g lang g_strs w =
     (let path = strings_path (path_of w g) (name_of w g) lang;
          w1 = log_call (Mkdir path) w;
          w2 = usbg_write_string e path [] ''serialnumber'' (str_ser g_strs) w1;
          w3 = usbg_write_string e path [] ''manufacturer'' (str_mnf g_strs) w2
      in usbg_write_string e path [] ''product'' (str_prd g_strs) w3)"

definition usbg_set_function_attrs ::
  "env \<Rightarrow> addr option \<Rightarrow> function_attrs option \<Rightarrow> world \<Rightarrow> world" where
  "usbg_set_function_attrs e f f_attrs w =
     (case (f, f_attrs) of
        (Some f, Some a) \<Rightarrow>
          (if ftype_of w f \<in> {F_SERIAL, F_ACM, F_OBEX}
           then usbg_write_dec e (path_of w f) (name_of w f) ''port_num'' (serial_port_num a) w
           else if ftype_of w f \<in> {F_ECM, F_SUBSET, F_NCM, F_EEM, F_RNDIS}
           then
             (let w1 = usbg_write_string e (path_of w f) (name_of w f) ''dev_addr''
                         (ether_ntoa (net_dev_addr a)) w;
                  w2 = usbg_write_string e (path_of w1 f) (name_of w1 f) ''host_addr''
                         (ether_ntoa (net_host_addr a)) w1;
                  w3 = usbg_write_string e (path_of w2 f) (name_of w2 f) ''ifname''
                         (net_ifname a) w2
              in usbg_write_dec e (path_of w3 f) (name_of w3 f) ''qmult'' (net_qmult a) w3)
           else if ftype_of w f = F_PHONET
           then usbg_write_string e (path_of w f) (name_of w f) ''ifname'' (phonet_ifname a) w
           else w)
      | _ \<Rightarrow> w)"

definition usbg_set_config_attrs ::
  "env \<Rightarrow> addr option \<Rightarrow> config_attrs option \<Rightarrow> world \<Rightarrow> world" where
  "usbg_set_config_attrs e c c_attrs w =
     (case (c, c_attrs) of
        (Some c, Some a) \<Rightarrow>
          (let w1 = usbg_write_dec e (path_of w c) (name_of w c) ''MaxPower''
                      (uint (bMaxPower a)) w
           in usbg_write_hex8 e (path_of w1 c) (name_of w1 c) ''bmAttributes''
                (uint (bmAttributes a)) w1)
      | _ \<Rightarrow> w)"

definition usbg_set_config_string :: "env \<Rightarrow> addr \<Rightarrow> int \<Rightarrow> string \<Rightarrow> world \<Rightarrow> world" where
  "usbg_set_config_string e c lang str w =
     (let path = strings_path (path_of w c) (name_of w c) lang;
          w1 = log_call (Mkdir path) w
      in usbg_write_string e path [] ''configuration'' str w1)"

section \<open>Creating nodes\<close>

definition usbg_create_empty_gadget ::
  "env \<Rightarrow> addr \<Rightarrow> string \<Rightarrow> world \<Rightarrow> addr option \<times> world" where
  "usbg_create_empty_gadget e s name w =
     (let gpath = path_of w s @ ''/'' @ name
      in case malloc e w of
           (None, w1) \<Rightarrow> (None, w1)
         | (Some g, w1) \<Rightarrow>
             (let w2 = TAILQ_INIT (Configs g) w1;
                  w3 = TAILQ_INIT (Functions g) w2;
                  w4 = w3\<lparr>name_of := (name_of w3)(g := name)\<rparr>;
                  w5 = w4\<lparr>path_of := (path_of w4)(g := path_of w4 s)\<rparr>;
                  w6 = w5\<lparr>parent_of := (parent_of w5)(g := s)\<rparr>;
                  w7 = log_call (Mkdir gpath) w6
              in if \<not> mkdir_ok e gpath then (None, free g w7)
                 else (case usbg_read_string e (path_of w7 g) (name_of w7 g) ''UDC''
                              (udc_of w7 g) of
                         (ret, u) \<Rightarrow> (Some g, w7\<lparr>udc_of := (udc_of w7)(g := u)\<rparr>))))"

definition usbg_create_gadget_vid_pid ::
  "env \<Rightarrow> addr option \<Rightarrow> string \<Rightarrow> 16 word \<Rightarrow> 16 word \<Rightarrow> world
     \<Rightarrow> (addr option \<times> world) option" where
  "usbg_create_gadget_vid_pid e s name vid pid w =
     (case s of
        None \<Rightarrow> Some (None, w)
      | Some s \<Rightarrow>
          (case usbg_get_gadget w s name of
             None \<Rightarrow> None
           | Some (Some g) \<Rightarrow> Some (None, w)
           | Some None \<Rightarrow>
               (case usbg_create_empty_gadget e s name w of
                  (None, w1) \<Rightarrow> Some (None, w1)
                | (Some g, w1) \<Rightarrow>
                    (let w2 = usbg_write_hex16 e (path_of w1 s) name ''idVendor'' (uint vid) w1;
                         w3 = usbg_write_hex16 e (path_of w2 s) name ''idProduct'' (uint pid) w2
                     in map_option (Pair (Some g))
                          (INSERT_TAILQ_STRING_ORDER (Gadgets s) g w3)))))"

definition usbg_create_gadget ::
  "env \<Rightarrow> addr option \<Rightarrow> string \<Rightarrow> gadget_attrs option \<Rightarrow> gadget_strs option \<Rightarrow> world
     \<Rightarrow> (addr option \<times> world) option" where
  "usbg_create_gadget e s name g_attrs g_strs w =
     (case s of
        None \<Rightarrow> Some (None, w)
      | Some s \<Rightarrow>
          (case usbg_get_gadget w s name of
             None \<Rightarrow> None
           | Some (Some g) \<Rightarrow> Some (None, w)
           | Some None \<Rightarrow>
               (case usbg_create_empty_gadget e s name w of
                  (None, w1) \<Rightarrow> Some (None, w1)
                | (Some g, w1) \<Rightarrow>
                    (let w2 = (case g_attrs of
                                 Some a \<Rightarrow> usbg_set_gadget_attrs e (Some g) (Some a) w1
                               | None \<Rightarrow> w1);
                         w3 = (case g_strs of
                                 Some strs \<Rightarrow> usbg_set_gadget_strs e g (LANG_US_ENG e) strs w2
                               | None \<Rightarrow> w2)
                     in map_option (Pair (Some g))
                          (INSERT_TAILQ_STRING_ORDER (Gadgets s) g w3)))))"

text \<open>\<^verbatim>\<open>usbg_create_function\<close>; \<^verbatim>\<open>f->parent\<close> is not assigned.\<close>

definition usbg_create_function ::
  "env \<Rightarrow> addr option \<Rightarrow> int \<Rightarrow> string \<Rightarrow> function_attrs option \<Rightarrow> world
     \<Rightarrow> (addr option \<times> world) option" where
  "usbg_create_function e g type instance f_attrs w =
     (case g of
        None \<Rightarrow> Some (None, w)
      | Some g \<Rightarrow>
          (case function_name type of
             None \<Rightarrow> None
           | Some tn \<Rightarrow>
               (let name = tn @ ''.'' @ instance
                in case usbg_get_function w g name of
                     None \<Rightarrow> None
                   | Some (Some f) \<Rightarrow> Some (None, w)
                   | Some None \<Rightarrow>
                       (let fpath = path_of w g @ ''/'' @ name_of w g @ ''/'' @ ''functions''
                                      @ ''/'' @ name
                        in case malloc e w of
                             (None, w1) \<Rightarrow> Some (None, w1)
                           | (Some f, w1) \<Rightarrow>
                               (let w2 = w1\<lparr>name_of := (name_of w1)(f := name)\<rparr>;
                                    w3 = w2\<lparr>path_of := (path_of w2)
                                           (f := path3 (path_of w2 g) (name_of w2 g) ''functions'')\<rparr>;
                                    w4 = w3\<lparr>ftype_of := (ftype_of w3)(f := type)\<rparr>;
                                    w5 = log_call (Mkdir fpath) w4
                                in if \<not> mkdir_ok e fpath then Some (None, free f w5)
                                   else
                                     (let w6 = (case f_attrs of
                                                  Some a \<Rightarrow>
                                                    usbg_set_function_attrs e (Some f) (Some a) w5
                                                | None \<Rightarrow> w5)
                                      in map_option (Pair (Some f))
                                           (INSERT_TAILQ_STRING_ORDER (Functions g) f w6)))))))"

text \<open>\<^verbatim>\<open>usbg_create_config\<close>; \<^verbatim>\<open>c->parent\<close> is not assigned.\<close>

definition usbg_create_config ::
  "env \<Rightarrow> addr option \<Rightarrow> string \<Rightarrow> config_attrs option \<Rightarrow> config_strs option \<Rightarrow> world
     \<Rightarrow> (addr option \<times> world) option" where
  "usbg_create_config e g name c_attrs c_strs w =
     (case g of
        None \<Rightarrow> Some (None, w)
      | Some g \<Rightarrow>
          (case usbg_get_config w g name of
             None \<Rightarrow> None
           | Some (Some c) \<Rightarrow> Some (None, w)
           | Some None \<Rightarrow>
               (let cpath = path_of w g @ ''/'' @ name_of w g @ ''/'' @ ''configs''
                              @ ''/'' @ name
                in case malloc e w of
                     (None, w1) \<Rightarrow> Some (None, w1)
                   | (Some c, w1) \<Rightarrow>
                       (let w2 = TAILQ_INIT (Bindings c) w1;
                            w3 = w2\<lparr>name_of := (name_of w2)(c := name)\<rparr>;
                            w4 = w3\<lparr>path_of := (path_of w3)
                                   (c := path3 (path_of w3 g) (name_of w3 g) ''configs'')\<rparr>;
                            w5 = log_call (Mkdir cpath) w4
                        in if \<not> mkdir_ok e cpath then Some (None, free c w5)
                           else
                             (let w6 = (case c_attrs of
                                          Some a \<Rightarrow> usbg_set_config_attrs e (Some c) (Some a) w5
                                        | None \<Rightarrow> w5);
                                  w7 = (case c_strs of
                                          Some strs \<Rightarrow>
                                            usbg_set_config_string e c (LANG_US_ENG e)
                                              (configuration strs) w6
                                        | None \<Rightarrow> w6)
                              in map_option (Pair (Some c))
                                   (INSERT_TAILQ_STRING_ORDER (Configs g) c w7))))))"

text \<open>
  \<^verbatim>\<open>usbg_add_config_function\<close> returns an \<^verbatim>\<open>int\<close>. When \<^verbatim>\<open>symlink\<close> fails the
  source returns its result (-1) at once; the block \<^verbatim>\<open>b\<close> is not passed to
  \<^verbatim>\<open>free\<close>.
\<close>

definition usbg_add_config_function ::
  "env \<Rightarrow> addr option \<Rightarrow> string \<Rightarrow> addr option \<Rightarrow> world \<Rightarrow> (int \<times> world) option" where
  "usbg_add_config_function e c name f w =
     (case (c, f) of
        (Some c, Some f) \<Rightarrow>
          (case usbg_get_binding w c name of
             None \<Rightarrow> None
           | Some (Some b) \<Rightarrow> Some (-1, w)
           | Some None \<Rightarrow>
               (case usbg_get_link_binding w c (Some f) of
                  None \<Rightarrow> None
                | Some (Some b) \<Rightarrow> Some (-1, w)
                | Some None \<Rightarrow>
                    (let bpath = path3 (path_of w c) (name_of w c) name;
                         fpath = path_of w f @ ''/'' @ name_of w f
                     in case malloc e w of
                          (None, w1) \<Rightarrow> Some (-1, w1)
                        | (Some b, w1) \<Rightarrow>
                            (let w2 = log_call (Symlink fpath bpath) w1
                             in if \<not> symlink_ok e fpath bpath then Some (-1, w2)
                                else
                                  (let w3 = w2\<lparr>name_of := (name_of w2)(b := name)\<rparr>;
                                       w4 = w3\<lparr>path_of := (path_of w3)(b := bpath)\<rparr>;
                                       w5 = w4\<lparr>target_of := (target_of w4)(b := Some f)\<rparr>;
                                       w6 = w5\<lparr>parent_of := (parent_of w5)(b := c)\<rparr>
                                   in map_option (Pair 0)
                                        (INSERT_TAILQ_STRING_ORDER (Bindings c) b w6))))))
      | _ \<Rightarrow> Some (-1, w))"

section \<open>Enabling and disabling a gadget\<close>

definition file_select :: "dirent \<Rightarrow> bool" where
  "file_select dent = (\<not> (strcmp (d_name dent) ''.'' = 0 \<or> strcmp (d_name dent) ''..'' = 0))"

definition bindings_select :: "dirent \<Rightarrow> bool" where
  "bindings_select dent = (d_type dent = DT_LNK)"

text \<open>\<^verbatim>\<open>scandir(path, &dent, select, alphasort)\<close>: the selected entries, sorted by name
  (\<^verbatim>\<open>alphasort\<close> in the C locale compares as \<^verbatim>\<open>strcmp\<close> does).\<close>

fun insort_dirent :: "dirent \<Rightarrow> dirent list \<Rightarrow> dirent list" where
  "insort_dirent d [] = [d]"
| "insort_dirent d (x # xs) =
     (if strcmp (d_name d) (d_name x) \<le> 0 then d # x # xs else x # insort_dirent d xs)"

definition alphasort :: "dirent list \<Rightarrow> dirent list" where
  "alphasort ds = foldr insort_dirent ds []"

definition scandir :: "env \<Rightarrow> string \<Rightarrow> (dirent \<Rightarrow> bool) \<Rightarrow> errno + dirent list" where
  "scandir e path select =
     (case dir_entries e path of
        Inl err \<Rightarrow> Inl err
      | Inr ds \<Rightarrow> Inr (alphasort (filter select ds)))"

definition usbg_get_udcs :: "env \<Rightarrow> errno + dirent list" where
  "usbg_get_udcs e = scandir e ''/sys/class/udc'' file_select"

text \<open>
  Where the order of two effects matters, a run of statements is given as the list of
  the statements, in program order, each a change of the world. \<open>states_after\<close> lists
  the world after each statement, and \<open>run_stmts\<close> gives the last of them.
\<close>

fun states_after :: "(world \<Rightarrow> world) list \<Rightarrow> world \<Rightarrow> world list" where
  "states_after [] w = []"
| "states_after (stmt # stmts) w = stmt w # states_after stmts (stmt w)"

definition run_stmts :: "(world \<Rightarrow> world) list \<Rightarrow> world \<Rightarrow> world" where
  "run_stmts stmts w = last (w # states_after stmts w)"

text \<open>
  \<^verbatim>\<open>usbg_enable_gadget\<close>: with \<^verbatim>\<open>udc == NULL\<close> the first controller listed is taken;
  \<^verbatim>\<open>if (!n) return;\<close> covers the empty list only, and a failed \<^verbatim>\<open>scandir\<close>
  (\<open>n = -1\<close>) goes on to read \<^verbatim>\<open>udc_list[0]\<close>, which was never set. The choice of
  \<^verbatim>\<open>gudc\<close> writes local variables only; the two statements that follow it are
  \<^verbatim>\<open>strcpy(g->udc, gudc); usbg_write_string(g->path, g->name, "UDC", gudc);\<close>
\<close>

definition usbg_enable_gadget_stmts :: "env \<Rightarrow> addr \<Rightarrow> string \<Rightarrow> (world \<Rightarrow> world) list" where
  "usbg_enable_gadget_stmts e g gudc =
     [\<lambda>w. w\<lparr>udc_of := (udc_of w)(g := gudc)\<rparr>,
      \<lambda>w. usbg_write_string e (path_of w g) (name_of w g) ''UDC'' gudc w]"

definition usbg_enable_gadget :: "env \<Rightarrow> addr \<Rightarrow> string option \<Rightarrow> world \<Rightarrow> world option" where
  "usbg_enable_gadget e g udc w =
     (case (case udc of
              None \<Rightarrow>
                (case usbg_get_udcs e of
                   Inl err \<Rightarrow> None
                 | Inr [] \<Rightarrow> Some None
                 | Inr (d # ds) \<Rightarrow> Some (Some (d_name d)))
            | Some u \<Rightarrow> Some (Some u)) of
        None \<Rightarrow> None
      | Some None \<Rightarrow> Some w
      | Some (Some gudc) \<Rightarrow> Some (run_stmts (usbg_enable_gadget_stmts e g gudc) w))"

text \<open>\<^verbatim>\<open>strcpy(g->udc, ""); usbg_write_string(g->path, g->name, "UDC", "");\<close>\<close>

definition usbg_disable_gadget_stmts :: "env \<Rightarrow> addr \<Rightarrow> (world \<Rightarrow> world) list" where
  "usbg_disable_gadget_stmts e g =
     [\<lambda>w. w\<lparr>udc_of := (udc_of w)(g := [])\<rparr>,
      \<lambda>w. usbg_write_string e (path_of w g) (name_of w g) ''UDC'' [] w]"

definition usbg_disable_gadget :: "env \<Rightarrow> addr \<Rightarrow> world \<Rightarrow> world" where
  "usbg_disable_gadget e g w = run_stmts (usbg_disable_gadget_stmts e g) w"

section \<open>Loading the tree\<close>

text \<open>\<^verbatim>\<open>strtok(s, ".")\<close>, first call: leading dots are skipped; \<open>None\<close> is the NULL
  returned when nothing is left; else the token runs to the next dot.\<close>

definition strtok_dot :: "string \<Rightarrow> string option" where
  "strtok_dot s =
     (let t = dropWhile (\<lambda>c. c = CHR ''.'') s
      in if t = [] then None else Some (takeWhile (\<lambda>c. c \<noteq> CHR ''.'') t))"

text \<open>The body of the \<^verbatim>\<open>for\<close> loop of \<^verbatim>\<open>usbg_parse_functions\<close> for one entry, on
  the status so far and the world.\<close>

definition parse_function_entry ::
  "env \<Rightarrow> addr \<Rightarrow> string \<Rightarrow> dirent \<Rightarrow> usbg_error \<times> world \<Rightarrow> usbg_error \<times> world" where
  "parse_function_entry e g fpath dent rw =
     (case rw of (ret, w) \<Rightarrow>
        if ret = USBG_SUCCESS
        then (case malloc e w of
                (Some f, w1) \<Rightarrow>
                  (let w2 = w1\<lparr>parent_of := (parent_of w1)(f := g)\<rparr>;
                       w3 = w2\<lparr>name_of := (name_of w2)(f := d_name dent)\<rparr>;
                       w4 = w3\<lparr>path_of := (path_of w3)(f := fpath)\<rparr>;
                       w5 = w4\<lparr>ftype_of := (ftype_of w4)
                              (f := usbg_lookup_function_type (strtok_dot (d_name dent)))\<rparr>
                   in (ret, TAILQ_INSERT_TAIL (Functions g) f w5))
              | (None, w1) \<Rightarrow> (USBG_ERROR_NO_MEM, w1))
        else (ret, w))"

fun parse_functions_loop ::
  "env \<Rightarrow> addr \<Rightarrow> string \<Rightarrow> dirent list \<Rightarrow> usbg_error \<times> world \<Rightarrow> usbg_error \<times> world" where
  "parse_functions_loop e g fpath [] rw = rw"
| "parse_functions_loop e g fpath (dent # dents) rw =
     parse_functions_loop e g fpath dents (parse_function_entry e g fpath dent rw)"

definition usbg_parse_functions :: "env \<Rightarrow> string \<Rightarrow> addr \<Rightarrow> world \<Rightarrow> usbg_error \<times> world" where
  "usbg_parse_functions e path g w =
     (let fpath = path3 path (name_of w g) ''functions''
      in case scandir e fpath file_select of
           Inr dents \<Rightarrow> parse_functions_loop e g fpath dents (USBG_SUCCESS, w)
         | Inl err \<Rightarrow> (usbg_translate_error err, w))"

text \<open>\<^verbatim>\<open>strrchr(target, '/') + 1\<close>: the text after the last slash. With no slash in
  \<open>target\<close>, \<^verbatim>\<open>strrchr\<close> returns NULL and the pointer computed is \<^verbatim>\<open>(char *) 1\<close>,
  which is no string: \<open>None\<close>.\<close>

definition after_last_slash :: "string \<Rightarrow> string option" where
  "after_last_slash target =
     (if CHR ''/'' \<in> set target
      then Some (rev (takeWhile (\<lambda>c. c \<noteq> CHR ''/'') (rev target)))
      else None)"

text \<open>The body of the \<^verbatim>\<open>for\<close> loop of \<^verbatim>\<open>usbg_parse_config_bindings\<close> for one entry.
  It runs whatever the status so far is. \<^verbatim>\<open>usbg_get_function(g, target_name)\<close> hands
  \<^verbatim>\<open>target_name\<close> to \<^verbatim>\<open>strcmp\<close> once for each function it walks over: when
  \<^verbatim>\<open>target_name\<close> is no string, the call has no result if the gadget has a function,
  and returns NULL without reading the pointer if it has none.\<close>

definition parse_binding_entry ::
  "env \<Rightarrow> addr \<Rightarrow> addr \<Rightarrow> string \<Rightarrow> dirent \<Rightarrow> usbg_error \<times> world
     \<Rightarrow> (usbg_error \<times> world) option" where
  "parse_binding_entry e c g bpath dent rw =
     (case rw of (ret, w) \<Rightarrow>
        (let file_name = bpath @ ''/'' @ d_name dent
         in case readlink_of e file_name of
              Inr bytes \<Rightarrow>
                (case (case after_last_slash (c_str bytes) of
                         Some target_name \<Rightarrow> usbg_get_function w g target_name
                       | None \<Rightarrow> if TAILQ_EMPTY w (Functions g) then Some None else None) of
                   None \<Rightarrow> None
                 | Some f \<Rightarrow>
                     (case malloc e w of
                        (Some b, w1) \<Rightarrow>
                          (let w2 = w1\<lparr>name_of := (name_of w1)(b := d_name dent)\<rparr>;
                               w3 = w2\<lparr>path_of := (path_of w2)(b := bpath)\<rparr>;
                               w4 = w3\<lparr>target_of := (target_of w3)(b := f)\<rparr>;
                               w5 = w4\<lparr>parent_of := (parent_of w4)(b := c)\<rparr>
                           in Some (ret, TAILQ_INSERT_TAIL (Bindings c) b w5))
                      | (None, w1) \<Rightarrow> Some (USBG_ERROR_NO_MEM, w1)))
            | Inl err \<Rightarrow> Some (usbg_translate_error err, w)))"

fun parse_bindings_loop ::
  "env \<Rightarrow> addr \<Rightarrow> addr \<Rightarrow> string \<Rightarrow> dirent list \<Rightarrow> usbg_error \<times> world
     \<Rightarrow> (usbg_error \<times> world) option" where
  "parse_bindings_loop e c g bpath [] rw = Some rw"
| "parse_bindings_loop e c g bpath (dent # dents) rw =
     Option.bind (parse_binding_entry e c g bpath dent rw)
       (parse_bindings_loop e c g bpath dents)"

definition usbg_parse_config_bindings ::
  "env \<Rightarrow> addr \<Rightarrow> world \<Rightarrow> (usbg_error \<times> world) option" where
  "usbg_parse_config_bindings e c w =
     (let g = parent_of w c;
          bpath = path_of w c @ ''/'' @ name_of w c
      in case scandir e bpath bindings_select of
           Inr dents \<Rightarrow> parse_bindings_loop e c g bpath dents (USBG_SUCCESS, w)
         | Inl err \<Rightarrow> Some (usbg_translate_error err, w))"

text \<open>The body of the \<^verbatim>\<open>for\<close> loop of \<^verbatim>\<open>usbg_parse_configs\<close> for one entry.\<close>

definition parse_config_entry ::
  "env \<Rightarrow> addr \<Rightarrow> string \<Rightarrow> dirent \<Rightarrow> usbg_error \<times> world
     \<Rightarrow> (usbg_error \<times> world) option" where
  "parse_config_entry e g cpath dent rw =
     (case rw of (ret, w) \<Rightarrow>
        if ret = USBG_SUCCESS
        then (case malloc e w of
                (Some c, w1) \<Rightarrow>
                  (let w2 = w1\<lparr>parent_of := (parent_of w1)(c := g)\<rparr>;
                       w3 = w2\<lparr>name_of := (name_of w2)(c := d_name dent)\<rparr>;
                       w4 = w3\<lparr>path_of := (path_of w3)(c := cpath)\<rparr>;
                       w5 = TAILQ_INIT (Bindings c) w4
                   in case usbg_parse_config_bindings e c w5 of
                        None \<Rightarrow> None
                      | Some (ret', w6) \<Rightarrow>
                          if ret' = USBG_SUCCESS
                          then Some (ret', TAILQ_INSERT_TAIL (Configs g) c w6)
                          else map_option (Pair ret') (usbg_free_config c w6))
              | (None, w1) \<Rightarrow> Some (USBG_ERROR_NO_MEM, w1))
        else Some (ret, w))"

fun parse_configs_loop ::
  "env \<Rightarrow> addr \<Rightarrow> string \<Rightarrow> dirent list \<Rightarrow> usbg_error \<times> world
     \<Rightarrow> (usbg_error \<times> world) option" where
  "parse_configs_loop e g cpath [] rw = Some rw"
| "parse_configs_loop e g cpath (dent # dents) rw =
     Option.bind (parse_config_entry e g cpath dent rw) (parse_configs_loop e g cpath dents)"

definition usbg_parse_configs ::
  "env \<Rightarrow> string \<Rightarrow> addr \<Rightarrow> world \<Rightarrow> (usbg_error \<times> world) option" where
  "usbg_parse_configs e path g w =
     (let cpath = path3 path (name_of w g) ''configs''
      in case scandir e cpath file_select of
           Inr dents \<Rightarrow> parse_configs_loop e g cpath dents (USBG_SUCCESS, w)
         | Inl err \<Rightarrow> Some (usbg_translate_error err, w))"

definition usbg_parse_gadget ::
  "env \<Rightarrow> string \<Rightarrow> string \<Rightarrow> addr \<Rightarrow> addr \<Rightarrow> world \<Rightarrow> (usbg_error \<times> world) option" where
  "usbg_parse_gadget e path name parent g w =
     (let w1 = w\<lparr>name_of := (name_of w)(g := name)\<rparr>;
          w2 = w1\<lparr>path_of := (path_of w1)(g := path)\<rparr>;
          w3 = w2\<lparr>parent_of := (parent_of w2)(g := parent)\<rparr>;
          w4 = TAILQ_INIT (Functions g) w3;
          w5 = TAILQ_INIT (Configs g) w4
      in case usbg_read_string e path (name_of w5 g) ''UDC'' (udc_of w5 g) of
           (ret, u) \<Rightarrow>
             (let w6 = w5\<lparr>udc_of := (udc_of w5)(g := u)\<rparr>
              in if ret \<noteq> USBG_SUCCESS then Some (ret, w6)
                 else (case usbg_parse_functions e path g w6 of
                         (ret', w7) \<Rightarrow>
                           if ret' \<noteq> USBG_SUCCESS then Some (ret', w7)
                           else usbg_parse_configs e path g w7)))"

text \<open>The body of the \<^verbatim>\<open>for\<close> loop of \<^verbatim>\<open>usbg_parse_gadgets\<close> for one entry.\<close>

definition parse_gadget_entry ::
  "env \<Rightarrow> addr \<Rightarrow> string \<Rightarrow> dirent \<Rightarrow> usbg_error \<times> world
     \<Rightarrow> (usbg_error \<times> world) option" where
  "parse_gadget_entry e s path dent rw =
     (case rw of (ret, w) \<Rightarrow>
        if ret = USBG_SUCCESS
        then (case malloc e w of
                (Some g, w1) \<Rightarrow>
                  (case usbg_parse_gadget e path (d_name dent) s g w1 of
                     None \<Rightarrow> None
                   | Some (ret', w2) \<Rightarrow>
                       if ret' = USBG_SUCCESS
                       then Some (ret', TAILQ_INSERT_TAIL (Gadgets s) g w2)
                       else map_option (Pair ret') (usbg_free_gadget g w2))
              | (None, w1) \<Rightarrow> Some (USBG_ERROR_NO_MEM, w1))
        else Some (ret, w))"

fun parse_gadgets_loop ::
  "env \<Rightarrow> addr \<Rightarrow> string \<Rightarrow> dirent list \<Rightarrow> usbg_error \<times> world
     \<Rightarrow> (usbg_error \<times> world) option" where
  "parse_gadgets_loop e s path [] rw = Some rw"
| "parse_gadgets_loop e s path (dent # dents) rw =
     Option.bind (parse_gadget_entry e s path dent rw) (parse_gadgets_loop e s path dents)"

definition usbg_parse_gadgets ::
  "env \<Rightarrow> string \<Rightarrow> addr \<Rightarrow> world \<Rightarrow> (usbg_error \<times> world) option" where
  "usbg_parse_gadgets e path s w =
     (case scandir e path file_select of
        Inr dents \<Rightarrow> parse_gadgets_loop e s path dents (USBG_SUCCESS, w)
      | Inl err \<Rightarrow> Some (usbg_translate_error err, w))"

definition usbg_init_state ::
  "env \<Rightarrow> string \<Rightarrow> addr \<Rightarrow> world \<Rightarrow> (usbg_error \<times> world) option" where
  "usbg_init_state e path s w =
     (let w1 = w\<lparr>path_of := (path_of w)(s := path)\<rparr>;
          w2 = TAILQ_INIT (Gadgets s) w1
      in usbg_parse_gadgets e path s w2)"

section \<open>Length accessors\<close>

text \<open>
  \<^verbatim>\<open>return g ? strlen(g->name) : USBG_ERROR_INVALID_PARAM;\<close> with return type
  \<^verbatim>\<open>size_t\<close> (64 bits, unsigned): the \<^verbatim>\<open>int\<close> operand is converted to
  \<^verbatim>\<open>size_t\<close>, which is what \<open>scast\<close> computes. A handle is \<open>None\<close> for NULL.
\<close>

definition usbg_get_configfs_path_len :: "env \<Rightarrow> world \<Rightarrow> addr option \<Rightarrow> 64 word" where
  "usbg_get_configfs_path_len e w s =
     (case s of Some a \<Rightarrow> of_nat (length (path_of w a))
      | None \<Rightarrow> scast (INVALID_PARAM_code e))"

definition usbg_get_gadget_name_len :: "env \<Rightarrow> world \<Rightarrow> addr option \<Rightarrow> 64 word" where
  "usbg_get_gadget_name_len e w g =
     (case g of Some a \<Rightarrow> of_nat (length (name_of w a))
      | None \<Rightarrow> scast (INVALID_PARAM_code e))"

definition usbg_get_gadget_udc_len :: "env \<Rightarrow> world \<Rightarrow> addr option \<Rightarrow> 64 word" where
  "usbg_get_gadget_udc_len e w g =
     (case g of Some a \<Rightarrow> of_nat (length (udc_of w a))
      | None \<Rightarrow> scast (INVALID_PARAM_code e))"

definition usbg_get_config_name_len :: "env \<Rightarrow> world \<Rightarrow> addr option \<Rightarrow> 64 word" where
  "usbg_get_config_name_len e w c =
     (case c of Some a \<Rightarrow> of_nat (length (name_of w a))
      | None \<Rightarrow> scast (INVALID_PARAM_code e))"

definition usbg_get_function_name_len :: "env \<Rightarrow> world \<Rightarrow> addr option \<Rightarrow> 64 word" where
  "usbg_get_function_name_len e w f =
     (case f of Some a \<Rightarrow> of_nat (length (name_of w a))
      | None \<Rightarrow> scast (INVALID_PARAM_code e))"

definition usbg_get_binding_name_len :: "env \<Rightarrow> world \<Rightarrow> addr option \<Rightarrow> 64 word" where
  "usbg_get_binding_name_len e w b =
     (case b of Some a \<Rightarrow> of_nat (length (name_of w a))
      | None \<Rightarrow> scast (INVALID_PARAM_code e))"

section \<open>Queues as lists\<close>

text \<open>
  \<open>fwd_list nxt p xs\<close>: following \<open>nxt\<close> from the pointer \<open>p\<close> visits exactly \<open>xs\<close> and
  then reaches NULL; it is what \<^verbatim>\<open>TAILQ_FOREACH\<close> sees. \<open>chain w s xs l\<close> adds the back
  pointers: each element's \<^verbatim>\<open>tqe_prev\<close> is the slot that points to it, and \<open>l\<close> is the
  slot holding the final NULL. \<open>tailq w h xs\<close>: the head \<open>h\<close> is a well-formed queue of
  the elements \<open>xs\<close>.
\<close>

fun fwd_list :: "(addr \<Rightarrow> addr option) \<Rightarrow> addr option \<Rightarrow> addr list \<Rightarrow> bool" where
  "fwd_list nxt p [] = (p = None)"
| "fwd_list nxt p (x # xs) = (p = Some x \<and> fwd_list nxt (nxt x) xs)"

fun chain :: "world \<Rightarrow> slot \<Rightarrow> addr list \<Rightarrow> slot \<Rightarrow> bool" where
  "chain w s [] l = (rd_slot w s = None \<and> l = s)"
| "chain w s (x # xs) l =
     (rd_slot w s = Some x \<and> tqe_prev w x = s \<and> chain w (Node_next x) xs l)"

definition tailq :: "world \<Rightarrow> head \<Rightarrow> addr list \<Rightarrow> bool" where
  "tailq w h xs = chain w (Head_first h) xs (tqh_last w h)"

section \<open>Example environments and worlds\<close>

text \<open>
  \<open>plain_env\<close>: every allocation, \<^verbatim>\<open>mkdir\<close>, \<^verbatim>\<open>symlink\<close> and \<^verbatim>\<open>fopen(.., "w")\<close>
  succeeds, and nothing can be read. \<open>state_world\<close>: block 0 is a \<^verbatim>\<open>usbg_state\<close> with
  path \<^verbatim>\<open>/cfg\<close> and no gadgets.
\<close>

definition plain_env :: env where
  "plain_env = \<lparr>MAX_STR_LENGTH = 256, INVALID_PARAM_code = -3, LANG_US_ENG = 0x409,
     malloc_ok = (\<lambda>_. True), rd_file = (\<lambda>_. Inl ENOENT), fopen_w_ok = (\<lambda>_. True),
     mkdir_ok = (\<lambda>_. True), symlink_ok = (\<lambda>_ _. True), dir_entries = (\<lambda>_. Inl ENOENT),
     readlink_of = (\<lambda>_. Inl ENOENT)\<rparr>"

definition state_world :: world where
  "state_world = \<lparr>brk = 1, live = {0}, name_of = (\<lambda>_. []), path_of = (\<lambda>_. ''/cfg''),
     udc_of = (\<lambda>_. []), parent_of = (\<lambda>_. 0), target_of = (\<lambda>_. None), ftype_of = (\<lambda>_. 0),
     tqh_first = (\<lambda>_. None), tqh_last = Head_first, tqe_next = (\<lambda>_. None),
     tqe_prev = Node_next, fs_calls = []\<rparr>"

text \<open>A file of two lines, and an environment in which every file reads as it.\<close>

definition two_lines :: string where
  "two_lines = ''a'' @ [CHR 0x0A] @ ''b'' @ [CHR 0x0A]"

definition two_lines_env :: env where
  "two_lines_env = plain_env\<lparr>rd_file := (\<lambda>_. Inr (Some two_lines))\<rparr>"

text \<open>An environment in which no file opens for writing, and a world with a gadget
  (block 1) named \<^verbatim>\<open>g1\<close> that is bound to \<^verbatim>\<open>udc0\<close>.\<close>

definition readonly_env :: env where
  "readonly_env = plain_env\<lparr>fopen_w_ok := (\<lambda>_. False)\<rparr>"

definition bound_gadget_world :: world where
  "bound_gadget_world =
     state_world\<lparr>brk := 2, live := {0, 1}, name_of := (\<lambda>_. ''g1''), udc_of := (\<lambda>_. ''udc0'')\<rparr>"

text \<open>
  \<open>tree_world\<close>: a small tree as the operations build it. Block 0 is the state, block 1
  the gadget \<^verbatim>\<open>g1\<close>, blocks 2 and 3 its functions \<^verbatim>\<open>acm.0\<close> and \<^verbatim>\<open>ecm.usb0\<close>,
  block 4 its config \<^verbatim>\<open>c1\<close>, and block 5 the binding \<^verbatim>\<open>b1\<close> of \<^verbatim>\<open>c1\<close> to
  \<^verbatim>\<open>acm.0\<close>. \<open>build_tree\<close> is the sequence of calls that builds it.
\<close>

definition tree_world :: world where
  "tree_world = \<lparr>brk = 6, live = {0, 1, 2, 3, 4, 5},
     name_of = (\<lambda>_. [])(1 := ''g1'', 2 := ''acm.0'', 3 := ''ecm.usb0'', 4 := ''c1'', 5 := ''b1''),
     path_of = (\<lambda>_. ''/cfg'')(2 := ''/cfg/g1/functions'', 3 := ''/cfg/g1/functions'',
       4 := ''/cfg/g1/configs'', 5 := ''/cfg/g1/configs/c1/b1''),
     udc_of = (\<lambda>_. []),
     parent_of = (\<lambda>_. 0)(5 := 4),
     target_of = (\<lambda>_. None)(5 := Some 2),
     ftype_of = (\<lambda>_. 0)(2 := 1, 3 := 3),
     tqh_first = (\<lambda>_. None)(Gadgets 0 := Some 1, Functions 1 := Some 2, Configs 1 := Some 4,
       Bindings 4 := Some 5),
     tqh_last = Head_first(Gadgets 0 := Node_next 1, Functions 1 := Node_next 3,
       Configs 1 := Node_next 4, Bindings 4 := Node_next 5),
     tqe_next = (\<lambda>_. None)(2 := Some 3),
     tqe_prev = Node_next(1 := Head_first (Gadgets 0), 2 := Head_first (Functions 1),
       3 := Node_next 2, 4 := Head_first (Configs 1), 5 := Head_first (Bindings 4)),
     fs_calls = [Mkdir ''/cfg/g1'', Mkdir ''/cfg/g1/functions/acm.0'',
       Mkdir ''/cfg/g1/functions/ecm.usb0'', Mkdir ''/cfg/g1/configs/c1'',
       Symlink ''/cfg/g1/functions/acm.0'' ''/cfg/g1/configs/c1/b1'']\<rparr>"

text \<open>\<open>and_then r f\<close>: the call \<open>f\<close> on the world the earlier call \<open>r\<close> left.\<close>

definition and_then :: "('a \<times> world) option \<Rightarrow> (world \<Rightarrow> ('b \<times> world) option) \<Rightarrow> ('b \<times> world) option" where
  "and_then r f = Option.bind r (\<lambda>rw. f (snd rw))"

definition build_tree :: "(int \<times> world) option" where
  "build_tree =
     and_then (and_then (and_then (and_then
       (usbg_create_gadget plain_env (Some 0) ''g1'' None None state_world)
       (usbg_create_function plain_env (Some 1) F_ACM ''0'' None))
       (usbg_create_function plain_env (Some 1) F_ECM ''usb0'' None))
       (usbg_create_config plain_env (Some 1) ''c1'' None None))
       (usbg_add_config_function plain_env (Some 4) ''b1'' (Some 2))"

text \<open>After the gadget \<^verbatim>\<open>g1\<close>, the configs \<^verbatim>\<open>c1\<close>, \<^verbatim>\<open>c3\<close>, \<^verbatim>\<open>c4\<close> (blocks 2, 3, 4)
  and then \<^verbatim>\<open>c2\<close> (block 5) are created.\<close>

definition three_configs :: "(addr option \<times> world) option" where
  "three_configs =
     and_then (and_then (and_then
       (usbg_create_gadget plain_env (Some 0) ''g1'' None None state_world)
       (usbg_create_config plain_env (Some 1) ''c1'' None None))
       (usbg_create_config plain_env (Some 1) ''c3'' None None))
       (usbg_create_config plain_env (Some 1) ''c4'' None None)"

definition four_configs :: "(addr option \<times> world) option" where
  "four_configs = and_then three_configs (usbg_create_config plain_env (Some 1) ''c2'' None None)"

text \<open>An environment in which \<^verbatim>\<open>symlink\<close> fails.\<close>

definition no_symlink_env :: env where
  "no_symlink_env = plain_env\<lparr>symlink_ok := (\<lambda>_ _. False)\<rparr>"

text \<open>An environment in which the functions directory of \<^verbatim>\<open>g1\<close> lists \<^verbatim>\<open>ecm.usb0\<close>
  and \<^verbatim>\<open>acm.0\<close>.\<close>

definition functions_env :: env where
  "functions_env = plain_env\<lparr>dir_entries :=
     (\<lambda>p. if p = ''/cfg/g1/functions''
          then Inr [\<lparr>d_name = ''.'', d_type = DT_DIR\<rparr>, \<lparr>d_name = ''..'', d_type = DT_DIR\<rparr>,
                    \<lparr>d_name = ''ecm.usb0'', d_type = DT_DIR\<rparr>,
                    \<lparr>d_name = ''acm.0'', d_type = DT_DIR\<rparr>]
          else Inl ENOENT)\<rparr>"

text \<open>The name a link entry of \<open>bpath\<close> resolves to: the text after the last slash of
  what \<^verbatim>\<open>readlink\<close> stores; \<open>None\<close> when \<^verbatim>\<open>readlink\<close> fails or stores no slash.\<close>

definition link_target_name :: "env \<Rightarrow> string \<Rightarrow> dirent \<Rightarrow> string option" where
  "link_target_name e bpath dent =
     (case readlink_of e (bpath @ ''/'' @ d_name dent) of
        Inr bytes \<Rightarrow> after_last_slash (c_str bytes)
      | Inl err \<Rightarrow> None)"

text \<open>
  \<open>loading_world\<close>: the example tree while its config \<^verbatim>\<open>c1\<close> (block 4) is being
  loaded: the parent of \<^verbatim>\<open>c1\<close> is the gadget (block 1), its queue of bindings is
  empty, and block 5 is not allocated yet. In \<open>links_env\<close> the directory of \<^verbatim>\<open>c1\<close>
  holds the links \<^verbatim>\<open>b0\<close> to the function \<^verbatim>\<open>ecm.usb0\<close> and \<^verbatim>\<open>b1\<close> to a
  directory \<^verbatim>\<open>rndis.usb1\<close> that is no function of the gadget; in \<open>broken_link_env\<close>
  there is a third link \<^verbatim>\<open>b2\<close> that \<^verbatim>\<open>readlink\<close> is denied access to.
\<close>

definition loading_world :: world where
  "loading_world = tree_world\<lparr>brk := 5, live := {0, 1, 2, 3, 4}, parent_of := (\<lambda>_. 1),
     tqh_first := (tqh_first tree_world)(Bindings 4 := None),
     tqh_last := (tqh_last tree_world)(Bindings 4 := Head_first (Bindings 4))\<rparr>"

definition links_env :: env where
  "links_env = plain_env\<lparr>
     dir_entries := (\<lambda>p. if p = ''/cfg/g1/configs/c1''
        then Inr [\<lparr>d_name = ''MaxPower'', d_type = DT_REG\<rparr>, \<lparr>d_name = ''b1'', d_type = DT_LNK\<rparr>,
                  \<lparr>d_name = ''strings'', d_type = DT_DIR\<rparr>, \<lparr>d_name = ''b0'', d_type = DT_LNK\<rparr>]
        else Inl ENOENT),
     readlink_of := (\<lambda>p. if p = ''/cfg/g1/configs/c1/b0'' then Inr ''/cfg/g1/functions/ecm.usb0''
        else if p = ''/cfg/g1/configs/c1/b1'' then Inr ''/elsewhere/rndis.usb1''
        else Inl EINVAL)\<rparr>"

definition broken_link_env :: env where
  "broken_link_env = links_env\<lparr>
     dir_entries := (\<lambda>p. if p = ''/cfg/g1/configs/c1''
        then Inr [\<lparr>d_name = ''b0'', d_type = DT_LNK\<rparr>, \<lparr>d_name = ''b1'', d_type = DT_LNK\<rparr>,
                  \<lparr>d_name = ''b2'', d_type = DT_LNK\<rparr>]
        else Inl ENOENT),
     readlink_of := (\<lambda>p. if p = ''/cfg/g1/configs/c1/b2'' then Inl EACCES
        else readlink_of links_env p)\<rparr>"

text \<open>
  \<open>same_except A H w w'\<close>: from \<open>w\<close> to \<open>w'\<close> no block outside \<open>A\<close> has changed in
  any field, in its links or in being allocated, and no queue head outside \<open>H\<close> has
  changed. \<open>unchanged_below n w w'\<close>: nothing has changed in the blocks below \<open>n\<close> and
  in the queue heads they own, that is in all that was allocated before block \<open>n\<close>.
\<close>

fun owner :: "head \<Rightarrow> addr" where
  "owner (Gadgets s) = s"
| "owner (Configs g) = g"
| "owner (Functions g) = g"
| "owner (Bindings c) = c"

definition same_except :: "addr set \<Rightarrow> head set \<Rightarrow> world \<Rightarrow> world \<Rightarrow> bool" where
  "same_except A H w w' \<longleftrightarrow>
     (\<forall>a. a \<notin> A \<longrightarrow>
        tqe_next w' a = tqe_next w a \<and> tqe_prev w' a = tqe_prev w a
        \<and> name_of w' a = name_of w a \<and> path_of w' a = path_of w a
        \<and> udc_of w' a = udc_of w a \<and> parent_of w' a = parent_of w a
        \<and> target_of w' a = target_of w a \<and> ftype_of w' a = ftype_of w a
        \<and> (a \<in> live w' \<longleftrightarrow> a \<in> live w))
     \<and> (\<forall>h. h \<notin> H \<longrightarrow> tqh_first w' h = tqh_first w h \<and> tqh_last w' h = tqh_last w h)"

definition unchanged_below :: "addr \<Rightarrow> world \<Rightarrow> world \<Rightarrow> bool" where
  "unchanged_below n w w' = same_except {a. n \<le> a} {h. n \<le> owner h} w w'"


text \<open>
  The order of C7 in the spec's words, for a run from \<open>w\<close> that passes through the
  states \<open>ws\<close>: the UDC field of \<open>g\<close> holds a new value only in states in which a call
  on the file system has been made since \<open>w\<close>, never before the write.
\<close>

definition spec_udc_updated_only_after_write :: "addr \<Rightarrow> world \<Rightarrow> world list \<Rightarrow> bool" where
  "spec_udc_updated_only_after_write g w ws \<longleftrightarrow>
     (\<forall>s \<in> set ws. udc_of s g \<noteq> udc_of w g \<longrightarrow> fs_calls s \<noteq> fs_calls w)"

text \<open>An environment in which \<^verbatim>\<open>/sys/class/udc\<close> lists the controller \<^verbatim>\<open>udc1\<close>.\<close>

definition one_udc_env :: env where
  "one_udc_env = plain_env\<lparr>dir_entries :=
     (\<lambda>p. if p = ''/sys/class/udc''
          then Inr [\<lparr>d_name = ''.'', d_type = DT_DIR\<rparr>, \<lparr>d_name = ''..'', d_type = DT_DIR\<rparr>,
                    \<lparr>d_name = ''udc1'', d_type = DT_LNK\<rparr>]
          else Inl ENOENT)\<rparr>"

text \<open>
  The invariant of C2 in the spec's words, for the bindings \<open>bs\<close> of a config: at most
  one of them targets any given function.
\<close>

definition at_most_one_binding_per_function :: "world \<Rightarrow> addr list \<Rightarrow> bool" where
  "at_most_one_binding_per_function w bs \<longleftrightarrow>
     (\<forall>b \<in> set bs. \<forall>b' \<in> set bs.
        target_of w b \<noteq> None \<and> target_of w b = target_of w b' \<longrightarrow> b = b')"

text \<open>
  \<open>twin_links_env\<close>: the directory of \<^verbatim>\<open>c1\<close> holds two links, \<^verbatim>\<open>b0\<close> and \<^verbatim>\<open>b1\<close>,
  both to the function \<^verbatim>\<open>ecm.usb0\<close>. \<open>bare_link_env\<close>: it holds one link \<^verbatim>\<open>b0\<close>
  whose target \<^verbatim>\<open>rndis.usb1\<close> has no slash and names no function of the gadget.
\<close>

definition twin_links_env :: env where
  "twin_links_env = plain_env\<lparr>
     dir_entries := (\<lambda>p. if p = ''/cfg/g1/configs/c1''
        then Inr [\<lparr>d_name = ''b0'', d_type = DT_LNK\<rparr>, \<lparr>d_name = ''b1'', d_type = DT_LNK\<rparr>]
        else Inl ENOENT),
     readlink_of := (\<lambda>p. if p = ''/cfg/g1/configs/c1/b0'' \<or> p = ''/cfg/g1/configs/c1/b1''
        then Inr ''../../functions/ecm.usb0'' else Inl EINVAL)\<rparr>"

definition bare_link_env :: env where
  "bare_link_env = plain_env\<lparr>
     dir_entries := (\<lambda>p. if p = ''/cfg/g1/configs/c1''
        then Inr [\<lparr>d_name = ''b0'', d_type = DT_LNK\<rparr>] else Inl ENOENT),
     readlink_of := (\<lambda>p. if p = ''/cfg/g1/configs/c1/b0''
        then Inr ''rndis.usb1'' else Inl EINVAL)\<rparr>"




section \<open>Properties of the attribute codec\<close>

lemma takeWhile_twice:
  "takeWhile P (takeWhile Q xs) = takeWhile (\<lambda>x. P x \<and> Q x) xs"
  by (induction xs) auto

lemma takeWhile_take_line:
  "takeWhile (\<lambda>c. c \<noteq> nl \<and> Q c) (take k (takeWhile (\<lambda>c. c \<noteq> nl) bs @ (if b then [nl] else [])))
   = takeWhile (\<lambda>c. c \<noteq> nl \<and> Q c) (take k bs)"
proof (induction bs arbitrary: k)
  case Nil
  show ?case by (cases k) auto
next
  case (Cons x xs)
  show ?case
  proof (cases k)
    case 0
    then show ?thesis by simp
  next
    case (Suc j)
    with Cons.IH [of j] show ?thesis by (cases "x = nl") auto
  qed
qed

lemma fgets_cut:
  assumes "2 \<le> n" "bytes \<noteq> []"
  shows "map_option cut_at_newline (fgets n bytes)
       = Some (takeWhile (\<lambda>c. c \<noteq> CHR 0x0A \<and> c \<noteq> CHR 0x00) (take (n - 1) bytes))"
proof -
  let ?R = "\<lambda>c. c \<noteq> CHR 0x0A \<and> c \<noteq> CHR 0x00"
  have "takeWhile ?R (take (n - 1) (first_line bytes)) = takeWhile ?R (take (n - 1) bytes)"
    unfolding first_line_def by (rule takeWhile_take_line)
  moreover have "fgets n bytes = Some (c_str (take (n - 1) (first_line bytes)))"
    using assms by (simp add: fgets_def)
  ultimately show ?thesis
    by (simp only: option.map cut_at_newline_def c_str_def takeWhile_twice)
qed

lemma single_line_strip:
  assumes "bytes \<noteq> []" "CHR 0x00 \<notin> set bytes" "CHR 0x0A \<notin> set (butlast bytes)"
  shows "takeWhile (\<lambda>c. c \<noteq> CHR 0x0A \<and> c \<noteq> CHR 0x00) bytes = spec_strip_trailing_newline bytes"
proof -
  let ?R = "\<lambda>c. c \<noteq> CHR 0x0A \<and> c \<noteq> CHR 0x00"
  have split: "bytes = butlast bytes @ [last bytes]" using assms(1) by simp
  have all: "\<forall>c \<in> set (butlast bytes). ?R c"
    using assms(2,3) by (auto dest: in_set_butlastD)
  have "takeWhile ?R bytes = takeWhile ?R (butlast bytes @ [last bytes])"
    using split by simp
  also have "\<dots> = butlast bytes @ takeWhile ?R [last bytes]"
    using all by (simp add: takeWhile_append2)
  also have "\<dots> = spec_strip_trailing_newline bytes"
  proof -
    have "last bytes \<in> set bytes" using assms(1) by (rule last_in_set)
    with assms(2) have "last bytes \<noteq> CHR 0x00" by metis
    with assms(1) show ?thesis by (simp add: spec_strip_trailing_newline_def)
  qed
  finally show ?thesis .
qed

text \<open>
  C8, as the code has it. \<^verbatim>\<open>usbg_read_string\<close> yields the first line of the file: the
  bytes before the first newline (and before any NUL), at most
  \<^verbatim>\<open>USBG_MAX_STR_LENGTH - 1\<close> of them. For a file that is one line shorter than the
  buffer this is the file's text with one trailing newline stripped if present. A file
  that cannot be opened or read, and an empty file, give a classified failure and the
  empty string: whenever the status is not success the buffer is empty.
\<close>

theorem usbg_read_string_first_line:
  "(rd_file e (path3 path name file) = Inl err \<longrightarrow>
      usbg_read_string e path name file buf = (usbg_translate_error err, [])
      \<and> usbg_translate_error err \<noteq> USBG_SUCCESS)
   \<and> (rd_file e (path3 path name file) = Inr None \<longrightarrow>
      usbg_read_string e path name file buf = (USBG_ERROR_IO, []))
   \<and> (rd_file e (path3 path name file) = Inr (Some []) \<and> MAX_STR_LENGTH e \<noteq> 1 \<longrightarrow>
      usbg_read_string e path name file buf = (USBG_ERROR_IO, []))
   \<and> (rd_file e (path3 path name file) = Inr (Some bytes) \<and> bytes \<noteq> []
        \<and> 2 \<le> MAX_STR_LENGTH e \<longrightarrow>
      usbg_read_string e path name file buf =
        (USBG_SUCCESS, takeWhile (\<lambda>c. c \<noteq> CHR 0x0A \<and> c \<noteq> CHR 0x00)
                         (take (MAX_STR_LENGTH e - 1) bytes)))
   \<and> (rd_file e (path3 path name file) = Inr (Some bytes) \<and> bytes \<noteq> []
        \<and> length bytes < MAX_STR_LENGTH e \<and> CHR 0x00 \<notin> set bytes
        \<and> CHR 0x0A \<notin> set (butlast bytes) \<longrightarrow>
      usbg_read_string e path name file buf =
        (USBG_SUCCESS, spec_strip_trailing_newline bytes))
   \<and> (fst (usbg_read_string e path name file buf) \<noteq> USBG_SUCCESS \<longrightarrow>
      snd (usbg_read_string e path name file buf) = [])"
proof (intro conjI impI)
  assume "rd_file e (path3 path name file) = Inl err"
  then show "usbg_read_string e path name file buf = (usbg_translate_error err, [])"
    by (cases err) (simp_all add: usbg_read_string_def usbg_read_buf_def)
next
  show "usbg_translate_error err \<noteq> USBG_SUCCESS" by (cases err) simp_all
next
  assume "rd_file e (path3 path name file) = Inr None"
  then show "usbg_read_string e path name file buf = (USBG_ERROR_IO, [])"
    by (simp add: usbg_read_string_def usbg_read_buf_def)
next
  assume "rd_file e (path3 path name file) = Inr (Some []) \<and> MAX_STR_LENGTH e \<noteq> 1"
  then show "usbg_read_string e path name file buf = (USBG_ERROR_IO, [])"
    by (simp add: usbg_read_string_def usbg_read_buf_def fgets_def)
next
  assume a: "rd_file e (path3 path name file) = Inr (Some bytes) \<and> bytes \<noteq> []
        \<and> 2 \<le> MAX_STR_LENGTH e"
  then obtain line where l: "fgets (MAX_STR_LENGTH e) bytes = Some line"
    by (auto simp: fgets_def)
  with fgets_cut [of "MAX_STR_LENGTH e" bytes] a
  have "cut_at_newline line = takeWhile (\<lambda>c. c \<noteq> CHR 0x0A \<and> c \<noteq> CHR 0x00)
                         (take (MAX_STR_LENGTH e - 1) bytes)" by simp
  with a l show "usbg_read_string e path name file buf =
        (USBG_SUCCESS, takeWhile (\<lambda>c. c \<noteq> CHR 0x0A \<and> c \<noteq> CHR 0x00)
                         (take (MAX_STR_LENGTH e - 1) bytes))"
    by (simp add: usbg_read_string_def usbg_read_buf_def)
next
  assume a: "rd_file e (path3 path name file) = Inr (Some bytes) \<and> bytes \<noteq> []
        \<and> length bytes < MAX_STR_LENGTH e \<and> CHR 0x00 \<notin> set bytes
        \<and> CHR 0x0A \<notin> set (butlast bytes)"
  then have n2: "2 \<le> MAX_STR_LENGTH e" by (cases bytes) auto
  from a n2 obtain line where l: "fgets (MAX_STR_LENGTH e) bytes = Some line"
    by (auto simp: fgets_def)
  from a have "length bytes \<le> MAX_STR_LENGTH e - 1" by arith
  then have tk: "take (MAX_STR_LENGTH e - 1) bytes = bytes" by simp
  from l fgets_cut [of "MAX_STR_LENGTH e" bytes] a n2 tk
  have "cut_at_newline line = takeWhile (\<lambda>c. c \<noteq> CHR 0x0A \<and> c \<noteq> CHR 0x00) bytes"
    by simp
  also have "\<dots> = spec_strip_trailing_newline bytes"
    using a by (intro single_line_strip) simp_all
  finally show "usbg_read_string e path name file buf =
        (USBG_SUCCESS, spec_strip_trailing_newline bytes)"
    using a l by (simp add: usbg_read_string_def usbg_read_buf_def)
next
  assume "fst (usbg_read_string e path name file buf) \<noteq> USBG_SUCCESS"
  then show "snd (usbg_read_string e path name file buf) = []"
    by (auto simp: usbg_read_string_def split: prod.splits if_splits)
qed

theorem usbg_read_string_first_line_witness:
  "usbg_read_string plain_env ''/cfg'' ''g1'' ''UDC'' ''junk'' = (USBG_ERROR_NOT_FOUND, [])
   \<and> usbg_read_string two_lines_env ''/cfg'' ''g1'' ''UDC'' ''junk'' = (USBG_SUCCESS, ''a'')
   \<and> usbg_read_string (plain_env\<lparr>rd_file := (\<lambda>_. Inr (Some (''udc0'' @ [CHR 0x0A])))\<rparr>)
        ''/cfg'' ''g1'' ''UDC'' ''junk'' = (USBG_SUCCESS, ''udc0'')"
proof -
  have 1: "rd_file plain_env (path3 ''/cfg'' ''g1'' ''UDC'') = Inl ENOENT"
    by (simp add: plain_env_def)
  have 2: "rd_file two_lines_env (path3 ''/cfg'' ''g1'' ''UDC'') = Inr (Some two_lines)
     \<and> two_lines \<noteq> [] \<and> 2 \<le> MAX_STR_LENGTH two_lines_env"
    by (simp add: two_lines_env_def two_lines_def plain_env_def)
  let ?e = "plain_env\<lparr>rd_file := (\<lambda>_. Inr (Some (''udc0'' @ [CHR 0x0A])))\<rparr>"
  have 3: "rd_file ?e (path3 ''/cfg'' ''g1'' ''UDC'') = Inr (Some (''udc0'' @ [CHR 0x0A]))
     \<and> ''udc0'' @ [CHR 0x0A] \<noteq> [] \<and> length (''udc0'' @ [CHR 0x0A]) < MAX_STR_LENGTH ?e
     \<and> CHR 0x00 \<notin> set (''udc0'' @ [CHR 0x0A]) \<and> CHR 0x0A \<notin> set (butlast (''udc0'' @ [CHR 0x0A]))"
    by (simp add: plain_env_def)
  from 1 usbg_read_string_first_line [of plain_env "''/cfg''" "''g1''" "''UDC''" ENOENT "''junk''" "[]"]
  have a: "usbg_read_string plain_env ''/cfg'' ''g1'' ''UDC'' ''junk'' = (USBG_ERROR_NOT_FOUND, [])"
    by simp
  from 2 usbg_read_string_first_line [of two_lines_env "''/cfg''" "''g1''" "''UDC''" ENOENT "''junk''" two_lines]
  have b: "usbg_read_string two_lines_env ''/cfg'' ''g1'' ''UDC'' ''junk'' = (USBG_SUCCESS, ''a'')"
    by (simp add: two_lines_def two_lines_env_def plain_env_def)
  from 3 usbg_read_string_first_line [of ?e "''/cfg''" "''g1''" "''UDC''" ENOENT "''junk''" "''udc0'' @ [CHR 0x0A]"]
  have c: "usbg_read_string ?e ''/cfg'' ''g1'' ''UDC'' ''junk'' = (USBG_SUCCESS, ''udc0'')"
    by (simp add: spec_strip_trailing_newline_def)
  from a b c show ?thesis by simp
qed

text \<open>
  C8 as stated fails on a file of two lines: the decoded value is the first line, not
  the file's text less its one trailing newline.
\<close>

theorem usbg_read_string_strip_counterexample:
  "rd_file two_lines_env (path3 ''/cfg'' ''g1'' ''UDC'') = Inr (Some two_lines)
   \<and> usbg_read_string two_lines_env ''/cfg'' ''g1'' ''UDC'' [] = (USBG_SUCCESS, ''a'')
   \<and> spec_strip_trailing_newline two_lines = ''a'' @ [CHR 0x0A] @ ''b''
   \<and> snd (usbg_read_string two_lines_env ''/cfg'' ''g1'' ''UDC'' []) \<noteq> spec_strip_trailing_newline two_lines"
  by (simp add: usbg_read_string_def usbg_read_buf_def fgets_def first_line_def
      c_str_def cut_at_newline_def path3_def two_lines_env_def two_lines_def plain_env_def
      spec_strip_trailing_newline_def)

section \<open>Properties of the length accessors\<close>

lemma scast_negative_int:
  fixes c :: "32 word"
  assumes "sint c < 0"
  shows "uint (scast c :: 64 word) = 2 ^ 64 + sint c"
proof -
  have lo: "- (2 ^ 31) \<le> sint c" using sint_ge [of c] by simp
  have a: "(scast c :: 64 word) = word_of_int (sint c)" by (rule scast_eq)
  have b: "uint (word_of_int (sint c) :: 64 word) = sint c mod 2 ^ LENGTH(64)"
    by (rule uint_word_of_int)
  have c: "sint c mod 2 ^ 64 = 2 ^ 64 + sint c"
  proof (rule int_mod_pos_eq [of _ _ "-1", simplified])
  qed (use assms lo in auto)
  show ?thesis unfolding a b using c by simp
qed

text \<open>
  C10. With a NULL handle each of the six length accessors returns the negative code
  \<^verbatim>\<open>USBG_ERROR_INVALID_PARAM\<close> converted to \<^verbatim>\<open>size_t\<close>: the caller reads
  \<open>2 ^ 64\<close> plus the code, a length of at least \<open>2 ^ 64 - 2 ^ 31\<close>.
\<close>

theorem length_accessors_null:
  assumes "sint (INVALID_PARAM_code e) < 0"
  shows "usbg_get_gadget_name_len e w None = scast (INVALID_PARAM_code e)
       \<and> usbg_get_gadget_udc_len e w None = scast (INVALID_PARAM_code e)
       \<and> usbg_get_configfs_path_len e w None = scast (INVALID_PARAM_code e)
       \<and> usbg_get_config_name_len e w None = scast (INVALID_PARAM_code e)
       \<and> usbg_get_function_name_len e w None = scast (INVALID_PARAM_code e)
       \<and> usbg_get_binding_name_len e w None = scast (INVALID_PARAM_code e)
       \<and> uint (scast (INVALID_PARAM_code e) :: 64 word) = 2 ^ 64 + sint (INVALID_PARAM_code e)
       \<and> 2 ^ 64 - 2 ^ 31 \<le> uint (scast (INVALID_PARAM_code e) :: 64 word)"
proof -
  have lo: "- (2 ^ 31) \<le> sint (INVALID_PARAM_code e)"
    using sint_ge [of "INVALID_PARAM_code e"] by simp
  have u: "uint (scast (INVALID_PARAM_code e) :: 64 word) = 2 ^ 64 + sint (INVALID_PARAM_code e)"
    using assms by (rule scast_negative_int)
  have "2 ^ 64 - 2 ^ 31 \<le> uint (scast (INVALID_PARAM_code e) :: 64 word)"
    unfolding u using lo by simp
  with u show ?thesis
    by (simp add: usbg_get_gadget_name_len_def usbg_get_gadget_udc_len_def
        usbg_get_configfs_path_len_def usbg_get_config_name_len_def
        usbg_get_function_name_len_def usbg_get_binding_name_len_def)
qed

theorem length_accessors_null_witness:
  "sint (INVALID_PARAM_code plain_env) < 0
   \<and> usbg_get_gadget_name_len plain_env state_world None = 18446744073709551613
   \<and> usbg_get_binding_name_len plain_env state_world None = 18446744073709551613
   \<and> uint (usbg_get_config_name_len plain_env state_world None) = 2 ^ 64 - 3"
proof -
  have h: "sint (INVALID_PARAM_code plain_env) < 0" by (simp add: plain_env_def)
  have v: "(scast (INVALID_PARAM_code plain_env) :: 64 word) = 18446744073709551613"
    by (simp add: plain_env_def)
  have s: "sint (INVALID_PARAM_code plain_env) = - 3" by (simp add: plain_env_def)
  from length_accessors_null [OF h, of state_world] h v s show ?thesis by simp
qed

section \<open>Properties of enabling and disabling\<close>

lemma usbg_write_string_udc_of:
  "udc_of (usbg_write_string e path name file buf w) = udc_of w"
  by (simp add: usbg_write_string_def usbg_write_buf_def log_call_def Let_def)

lemma usbg_write_string_fs_calls:
  "fs_calls (usbg_write_string e path name file buf w)
     = fs_calls w @ Fopen_w (path3 path name file)
         # (if fopen_w_ok e (path3 path name file) then [Fputs (path3 path name file) buf] else [])"
  by (simp add: usbg_write_string_def usbg_write_buf_def log_call_def Let_def)

text \<open>
  C7, as the code has it. Both operations update the in-memory UDC field before the write
  of the backing UDC file, not after it. The run passes through two states. In the
  first the field already holds the new string and no call on the file system has been
  made; so, whenever the new string differs from the old one, the order the spec words
  does not hold of the run. The second state adds the write, of that same string: the
  file is opened for writing and, if it opened, the string is put. The field holds the
  new string in both, whether or not the file could be written, and the operation
  returns the second state. With \<^verbatim>\<open>udc == NULL\<close> the string is the name of the first
  controller listed, and nothing is done when none is listed.
\<close>

theorem udc_field_set_before_write:
  "map (\<lambda>s. (udc_of s g, fs_calls s)) (states_after (usbg_disable_gadget_stmts e g) w)
     = [([], fs_calls w),
        ([], fs_calls w @ Fopen_w (path3 (path_of w g) (name_of w g) ''UDC'')
               # (if fopen_w_ok e (path3 (path_of w g) (name_of w g) ''UDC'')
                  then [Fputs (path3 (path_of w g) (name_of w g) ''UDC'') []] else []))]
   \<and> usbg_disable_gadget e g w = last (states_after (usbg_disable_gadget_stmts e g) w)
   \<and> (udc_of w g \<noteq> [] \<longrightarrow>
        \<not> spec_udc_updated_only_after_write g w (states_after (usbg_disable_gadget_stmts e g) w))
   \<and> map (\<lambda>s. (udc_of s g, fs_calls s)) (states_after (usbg_enable_gadget_stmts e g u) w)
     = [(u, fs_calls w),
        (u, fs_calls w @ Fopen_w (path3 (path_of w g) (name_of w g) ''UDC'')
              # (if fopen_w_ok e (path3 (path_of w g) (name_of w g) ''UDC'')
                 then [Fputs (path3 (path_of w g) (name_of w g) ''UDC'') u] else []))]
   \<and> usbg_enable_gadget e g (Some u) w
       = Some (last (states_after (usbg_enable_gadget_stmts e g u) w))
   \<and> (udc_of w g \<noteq> u \<longrightarrow>
        \<not> spec_udc_updated_only_after_write g w (states_after (usbg_enable_gadget_stmts e g u) w))
   \<and> (usbg_get_udcs e = Inr (d # ds) \<longrightarrow>
        usbg_enable_gadget e g None w
          = Some (last (states_after (usbg_enable_gadget_stmts e g (d_name d)) w)))
   \<and> (usbg_get_udcs e = Inr [] \<longrightarrow> usbg_enable_gadget e g None w = Some w)"
  by (simp add: usbg_disable_gadget_def usbg_disable_gadget_stmts_def usbg_enable_gadget_def
      usbg_enable_gadget_stmts_def run_stmts_def spec_udc_updated_only_after_write_def
      usbg_write_string_udc_of usbg_write_string_fs_calls)

lemma one_udc_env_udcs:
  "usbg_get_udcs one_udc_env = Inr [\<lparr>d_name = ''udc1'', d_type = DT_LNK\<rparr>]"
  "usbg_get_udcs plain_env = Inl ENOENT"
  "usbg_get_udcs (plain_env\<lparr>dir_entries := (\<lambda>_. Inr [])\<rparr>) = Inr []"
  by (simp_all add: usbg_get_udcs_def scandir_def alphasort_def file_select_def one_udc_env_def
      plain_env_def)

theorem udc_field_set_before_write_witness:
  "udc_of bound_gadget_world 1 = ''udc0''
   \<and> usbg_get_udcs one_udc_env = Inr [\<lparr>d_name = ''udc1'', d_type = DT_LNK\<rparr>]
   \<and> \<not> spec_udc_updated_only_after_write 1 bound_gadget_world
         (states_after (usbg_disable_gadget_stmts one_udc_env 1) bound_gadget_world)
   \<and> \<not> spec_udc_updated_only_after_write 1 bound_gadget_world
         (states_after (usbg_enable_gadget_stmts one_udc_env 1 ''udc1'') bound_gadget_world)
   \<and> usbg_enable_gadget one_udc_env 1 None bound_gadget_world
       = usbg_enable_gadget one_udc_env 1 (Some ''udc1'') bound_gadget_world
   \<and> map_option (\<lambda>w'. (udc_of w' 1, fs_calls w'))
        (usbg_enable_gadget one_udc_env 1 None bound_gadget_world)
       = Some (''udc1'', [Fopen_w ''/cfg/g1/UDC'', Fputs ''/cfg/g1/UDC'' ''udc1''])
   \<and> usbg_get_udcs (plain_env\<lparr>dir_entries := (\<lambda>_. Inr [])\<rparr>) = Inr []
   \<and> usbg_enable_gadget (plain_env\<lparr>dir_entries := (\<lambda>_. Inr [])\<rparr>) 1 None bound_gadget_world
       = Some bound_gadget_world"
proof -
  let ?d = "\<lparr>d_name = ''udc1'', d_type = DT_LNK\<rparr>"
  let ?none = "plain_env\<lparr>dir_entries := (\<lambda>_. Inr [])\<rparr>"
  note A = udc_field_set_before_write [of 1 one_udc_env bound_gadget_world "''udc1''" ?d "[]"]
  note B = udc_field_set_before_write [of 1 ?none bound_gadget_world "''udc1''" ?d "[]"]
  have old: "udc_of bound_gadget_world 1 = ''udc0''"
    by (simp add: bound_gadget_world_def)
  have h1: "udc_of bound_gadget_world 1 \<noteq> []" and h2: "udc_of bound_gadget_world 1 \<noteq> ''udc1''"
    unfolding old by simp_all
  have h3: "usbg_get_udcs one_udc_env = Inr (?d # [])" by (simp add: one_udc_env_udcs)
  have h4: "usbg_get_udcs ?none = Inr []" by (simp add: one_udc_env_udcs)
  have 1: "\<not> spec_udc_updated_only_after_write 1 bound_gadget_world
         (states_after (usbg_disable_gadget_stmts one_udc_env 1) bound_gadget_world)"
    using A h1 by blast
  have 2: "\<not> spec_udc_updated_only_after_write 1 bound_gadget_world
         (states_after (usbg_enable_gadget_stmts one_udc_env 1 ''udc1'') bound_gadget_world)"
    using A h2 by blast
  have 3: "usbg_enable_gadget one_udc_env 1 None bound_gadget_world
      = Some (last (states_after (usbg_enable_gadget_stmts one_udc_env 1 ''udc1'')
                 bound_gadget_world))"
    using A h3 by simp
  have 4: "usbg_enable_gadget one_udc_env 1 (Some ''udc1'') bound_gadget_world
      = Some (last (states_after (usbg_enable_gadget_stmts one_udc_env 1 ''udc1'')
                 bound_gadget_world))"
    using A by blast
  have 5: "map (\<lambda>s. (udc_of s 1, fs_calls s))
        (states_after (usbg_enable_gadget_stmts one_udc_env 1 ''udc1'') bound_gadget_world)
      = [(''udc1'', []), (''udc1'', [Fopen_w ''/cfg/g1/UDC'', Fputs ''/cfg/g1/UDC'' ''udc1''])]"
    using A [THEN conjunct2, THEN conjunct2, THEN conjunct2, THEN conjunct1]
    by (simp add: bound_gadget_world_def state_world_def one_udc_env_def plain_env_def path3_def)
  have 6: "map_option (\<lambda>w'. (udc_of w' 1, fs_calls w'))
        (usbg_enable_gadget one_udc_env 1 None bound_gadget_world)
       = Some (''udc1'', [Fopen_w ''/cfg/g1/UDC'', Fputs ''/cfg/g1/UDC'' ''udc1''])"
    unfolding 3 using 5 by (simp add: usbg_enable_gadget_stmts_def)
  have 7: "usbg_enable_gadget ?none 1 None bound_gadget_world = Some bound_gadget_world"
    using B h4 by blast
  from old h3 h4 1 2 3 4 6 7 show ?thesis by simp
qed

text \<open>
  C7 as stated fails. The gadget \<^verbatim>\<open>g1\<close> is bound to \<^verbatim>\<open>udc0\<close>. The first state that
  disabling it passes through has the empty string in the field and no call on the file
  system made yet; the \<^verbatim>\<open>fopen\<close> and \<^verbatim>\<open>fputs\<close> on the UDC file come in the second.
  Enabling it on \<^verbatim>\<open>udc1\<close> likewise has \<^verbatim>\<open>udc1\<close> in the field before the write. So
  the field is updated before the write, and the order of the spec does not hold of
  either run.
\<close>

theorem udc_field_after_write_counterexample:
  "udc_of bound_gadget_world 1 = ''udc0'' \<and> fs_calls bound_gadget_world = []
   \<and> map (\<lambda>s. (udc_of s 1, fs_calls s))
        (states_after (usbg_disable_gadget_stmts plain_env 1) bound_gadget_world)
       = [([], []), ([], [Fopen_w ''/cfg/g1/UDC'', Fputs ''/cfg/g1/UDC'' []])]
   \<and> usbg_disable_gadget plain_env 1 bound_gadget_world
       = last (states_after (usbg_disable_gadget_stmts plain_env 1) bound_gadget_world)
   \<and> spec_udc_updated_only_after_write 1 bound_gadget_world
        (states_after (usbg_disable_gadget_stmts plain_env 1) bound_gadget_world) = False
   \<and> map (\<lambda>s. (udc_of s 1, fs_calls s))
        (states_after (usbg_enable_gadget_stmts plain_env 1 ''udc1'') bound_gadget_world)
       = [(''udc1'', []), (''udc1'', [Fopen_w ''/cfg/g1/UDC'', Fputs ''/cfg/g1/UDC'' ''udc1''])]
   \<and> usbg_enable_gadget plain_env 1 (Some ''udc1'') bound_gadget_world
       = Some (last (states_after (usbg_enable_gadget_stmts plain_env 1 ''udc1'')
                  bound_gadget_world))
   \<and> spec_udc_updated_only_after_write 1 bound_gadget_world
        (states_after (usbg_enable_gadget_stmts plain_env 1 ''udc1'') bound_gadget_world) = False"
  by (simp add: usbg_disable_gadget_def usbg_disable_gadget_stmts_def usbg_enable_gadget_def
      usbg_enable_gadget_stmts_def run_stmts_def spec_udc_updated_only_after_write_def
      usbg_write_string_def usbg_write_buf_def log_call_def path3_def bound_gadget_world_def
      state_world_def plain_env_def Let_def)

section \<open>Properties of the lookups\<close>

lemma strcmp_eq_0_iff: "strcmp a b = 0 \<longleftrightarrow> a = b"
  by (induction a b rule: strcmp.induct) auto

lemma tailq_find_None [simp]: "tailq_find P nxt None = Some None"
  by (subst tailq_find.simps) simp

lemma tailq_find_Some [simp]:
  "tailq_find P nxt (Some a) = (if P a then Some (Some a) else tailq_find P nxt (nxt a))"
  by (subst tailq_find.simps) simp

text \<open>On a queue the loop of a lookup ends, with the first element that satisfies the
  test or with NULL.\<close>

lemma tailq_find_fwd_list:
  "fwd_list nxt p xs \<Longrightarrow> tailq_find P nxt p = Some (List.find P xs)"
  by (induction xs arbitrary: p) auto

lemma find_member: "x \<in> set xs \<Longrightarrow> P x \<Longrightarrow> \<exists>y. List.find P xs = Some y"
  by (cases "List.find P xs") (auto simp: find_None_iff)

lemma lookup_by_name_finds:
  assumes "fwd_list (tqe_next w) (tqh_first w h) xs" "x \<in> set xs" "name_of w x = nm"
  shows "\<exists>y. tailq_find (\<lambda>a. strcmp (name_of w a) nm = 0) (tqe_next w) (tqh_first w h)
           = Some (Some y)"
proof -
  from assms(3) have "strcmp (name_of w x) nm = 0" by (simp add: strcmp_eq_0_iff)
  with assms(2) obtain y where "List.find (\<lambda>a. strcmp (name_of w a) nm = 0) xs = Some y"
    using find_member [of x xs "\<lambda>a. strcmp (name_of w a) nm = 0"] by blast
  with tailq_find_fwd_list [OF assms(1)] show ?thesis by simp
qed

lemma lookup_by_name_misses:
  assumes "fwd_list (tqe_next w) (tqh_first w h) xs" "\<forall>x \<in> set xs. name_of w x \<noteq> nm"
  shows "tailq_find (\<lambda>a. strcmp (name_of w a) nm = 0) (tqe_next w) (tqh_first w h) = Some None"
proof -
  from assms(2) have "List.find (\<lambda>a. strcmp (name_of w a) nm = 0) xs = None"
    by (simp add: find_None_iff strcmp_eq_0_iff)
  with tailq_find_fwd_list [OF assms(1)] show ?thesis by simp
qed

section \<open>Properties of the creation operations\<close>

text \<open>
  C3. When the scope already holds a node of the name (for a function, of the name
  \<^verbatim>\<open><type-name>.<instance>\<close>), each creation operation returns NULL (or -1 for
  \<^verbatim>\<open>usbg_add_config_function\<close>) and the world it returns is the world it was given: no
  call on the file system was made, no block was allocated, and no queue was changed.
\<close>

theorem create_rejects_duplicate_name:
  "(fwd_list (tqe_next w) (tqh_first w (Gadgets s)) gs \<and> (\<exists>x \<in> set gs. name_of w x = name) \<longrightarrow>
      usbg_create_gadget e (Some s) name g_attrs g_strs w = Some (None, w)
      \<and> usbg_create_gadget_vid_pid e (Some s) name vid pid w = Some (None, w))
   \<and> (fwd_list (tqe_next w) (tqh_first w (Functions g)) fs \<and> function_name type = Some tn
        \<and> (\<exists>x \<in> set fs. name_of w x = tn @ ''.'' @ instance) \<longrightarrow>
      usbg_create_function e (Some g) type instance f_attrs w = Some (None, w))
   \<and> (fwd_list (tqe_next w) (tqh_first w (Configs g)) cs \<and> (\<exists>x \<in> set cs. name_of w x = name) \<longrightarrow>
      usbg_create_config e (Some g) name c_attrs c_strs w = Some (None, w))
   \<and> (fwd_list (tqe_next w) (tqh_first w (Bindings c)) bs \<and> (\<exists>x \<in> set bs. name_of w x = name) \<longrightarrow>
      usbg_add_config_function e (Some c) name (Some f) w = Some (-1, w))"
proof (intro conjI impI)
  assume a: "fwd_list (tqe_next w) (tqh_first w (Gadgets s)) gs \<and> (\<exists>x \<in> set gs. name_of w x = name)"
  then obtain y where y: "usbg_get_gadget w s name = Some (Some y)"
    unfolding usbg_get_gadget_def using lookup_by_name_finds by blast
  show "usbg_create_gadget e (Some s) name g_attrs g_strs w = Some (None, w)"
    by (simp add: usbg_create_gadget_def y)
  show "usbg_create_gadget_vid_pid e (Some s) name vid pid w = Some (None, w)"
    by (simp add: usbg_create_gadget_vid_pid_def y)
next
  assume a: "fwd_list (tqe_next w) (tqh_first w (Functions g)) fs \<and> function_name type = Some tn
        \<and> (\<exists>x \<in> set fs. name_of w x = tn @ ''.'' @ instance)"
  then obtain y where y: "usbg_get_function w g (tn @ ''.'' @ instance) = Some (Some y)"
    unfolding usbg_get_function_def using lookup_by_name_finds by blast
  from a have t: "function_name type = Some tn" by simp
  show "usbg_create_function e (Some g) type instance f_attrs w = Some (None, w)"
    using y by (simp add: usbg_create_function_def t)
next
  assume a: "fwd_list (tqe_next w) (tqh_first w (Configs g)) cs \<and> (\<exists>x \<in> set cs. name_of w x = name)"
  then obtain y where y: "usbg_get_config w g name = Some (Some y)"
    unfolding usbg_get_config_def using lookup_by_name_finds by blast
  show "usbg_create_config e (Some g) name c_attrs c_strs w = Some (None, w)"
    by (simp add: usbg_create_config_def y)
next
  assume a: "fwd_list (tqe_next w) (tqh_first w (Bindings c)) bs \<and> (\<exists>x \<in> set bs. name_of w x = name)"
  then obtain y where y: "usbg_get_binding w c name = Some (Some y)"
    unfolding usbg_get_binding_def using lookup_by_name_finds by blast
  show "usbg_add_config_function e (Some c) name (Some f) w = Some (-1, w)"
    by (simp add: usbg_add_config_function_def y)
qed

theorem create_rejects_duplicate_name_witness:
  "usbg_create_gadget plain_env (Some 0) ''g1'' None None tree_world = Some (None, tree_world)
   \<and> usbg_create_gadget_vid_pid plain_env (Some 0) ''g1'' 0x1d6b 0x0104 tree_world
       = Some (None, tree_world)
   \<and> function_name F_ECM = Some ''ecm''
   \<and> usbg_create_function plain_env (Some 1) F_ECM ''usb0'' None tree_world
       = Some (None, tree_world)
   \<and> usbg_create_config plain_env (Some 1) ''c1'' None None tree_world = Some (None, tree_world)
   \<and> usbg_add_config_function plain_env (Some 4) ''b1'' (Some 3) tree_world
       = Some (-1, tree_world)"
proof -
  have g: "fwd_list (tqe_next tree_world) (tqh_first tree_world (Gadgets 0)) [1]
      \<and> (\<exists>x \<in> set [1]. name_of tree_world x = ''g1'')"
    by (simp add: tree_world_def)
  have f: "fwd_list (tqe_next tree_world) (tqh_first tree_world (Functions 1)) [2, 3]
      \<and> function_name F_ECM = Some ''ecm''
      \<and> (\<exists>x \<in> set [2, 3]. name_of tree_world x = ''ecm'' @ ''.'' @ ''usb0'')"
    by (simp add: tree_world_def function_name_def function_names_def F_ECM_def)
  have c: "fwd_list (tqe_next tree_world) (tqh_first tree_world (Configs 1)) [4]
      \<and> (\<exists>x \<in> set [4]. name_of tree_world x = ''c1'')"
    by (simp add: tree_world_def)
  have b: "fwd_list (tqe_next tree_world) (tqh_first tree_world (Bindings 4)) [5]
      \<and> (\<exists>x \<in> set [5]. name_of tree_world x = ''b1'')"
    by (simp add: tree_world_def)
  from g create_rejects_duplicate_name [of tree_world 0 "[1]" "''g1''" plain_env None None
      "0x1d6b" "0x0104"]
  have 1: "usbg_create_gadget plain_env (Some 0) ''g1'' None None tree_world = Some (None, tree_world)
     \<and> usbg_create_gadget_vid_pid plain_env (Some 0) ''g1'' 0x1d6b 0x0104 tree_world
       = Some (None, tree_world)"
    by blast
  from f create_rejects_duplicate_name [of tree_world _ _ _ plain_env _ _ _ _ 1 "[2, 3]" F_ECM
      "''ecm''" "''usb0''" None]
  have 2: "usbg_create_function plain_env (Some 1) F_ECM ''usb0'' None tree_world
       = Some (None, tree_world)"
    by blast
  from c create_rejects_duplicate_name [of tree_world _ _ "''c1''" plain_env _ _ _ _ 1 _ _ _ _ _
      "[4]" None None]
  have 3: "usbg_create_config plain_env (Some 1) ''c1'' None None tree_world = Some (None, tree_world)"
    by blast
  from b create_rejects_duplicate_name [of tree_world _ _ "''b1''" plain_env _ _ _ _ _ _ _ _ _ _
      _ _ _ 4 "[5]" 3]
  have 4: "usbg_add_config_function plain_env (Some 4) ''b1'' (Some 3) tree_world
       = Some (-1, tree_world)"
    by blast
  from 1 2 3 4 f show ?thesis by simp
qed

section \<open>Running the operations on the example worlds\<close>

lemma insert_foreach_None [simp]: "insert_foreach ins None w = Some w"
  by (subst insert_foreach.simps) simp

lemma insert_foreach_Some [simp]:
  "insert_foreach ins (Some c) w =
     (if strcmp (name_of w ins) (name_of w c) > 0
      then insert_foreach ins (tqe_next w c) w
      else insert_foreach ins (tqe_next (TAILQ_INSERT_BEFORE c ins w) c)
             (TAILQ_INSERT_BEFORE c ins w))"
  by (subst insert_foreach.simps) (simp add: Let_def)

lemmas eval_defs = usbg_create_config_def usbg_create_gadget_def usbg_create_function_def
  usbg_add_config_function_def plain_env_def state_world_def
  usbg_get_gadget_def usbg_get_config_def usbg_get_function_def usbg_get_binding_def
  usbg_get_link_binding_def usbg_create_empty_gadget_def malloc_def free_def log_call_def
  TAILQ_INIT_def TAILQ_INSERT_HEAD_def TAILQ_INSERT_TAIL_def TAILQ_INSERT_BEFORE_def
  TAILQ_LAST_def INSERT_TAILQ_STRING_ORDER_def rd_slot_def wr_slot_def second_word_def
  usbg_read_string_def usbg_read_buf_def path3_def Let_def and_then_def
  function_name_def function_names_def F_ACM_def F_ECM_def

text \<open>The example tree is what the creation operations build from the empty state.\<close>

lemma build_tree_result: "build_tree = Some (0, tree_world)"
  apply (simp add: build_tree_def tree_world_def eval_defs fun_eq_iff)
  apply (auto simp: eval_nat_numeral)
  done

text \<open>
  C1 fails on the code. The gadget \<^verbatim>\<open>g1\<close> gets the configs \<^verbatim>\<open>c1\<close>, \<^verbatim>\<open>c3\<close>,
  \<^verbatim>\<open>c4\<close> (blocks 2, 3, 4): the queue is \<^verbatim>\<open>c1, c3, c4\<close>. Creating \<^verbatim>\<open>c2\<close> (block 5)
  then takes the scanning branch of \<^verbatim>\<open>INSERT_TAILQ_STRING_ORDER\<close>, which inserts the
  node before \<^verbatim>\<open>c3\<close> and, for want of a \<^verbatim>\<open>break\<close>, again before \<^verbatim>\<open>c4\<close>: the queue
  that \<^verbatim>\<open>TAILQ_FOREACH\<close> sees is \<^verbatim>\<open>c1, c2, c4\<close>. The config \<^verbatim>\<open>c3\<close> is still
  allocated, is in no queue (its \<^verbatim>\<open>tqe_next\<close> points to \<^verbatim>\<open>c2\<close>), and the
  \<^verbatim>\<open>tqe_prev\<close> of \<^verbatim>\<open>c2\<close> points into it.
\<close>

theorem insert_string_order_loses_element:
  "map_option
     (\<lambda>rw. (fst rw, fwd_list (tqe_next (snd rw)) (tqh_first (snd rw) (Configs 1)) [2, 3, 4],
            map (name_of (snd rw)) [2, 3, 4]))
     three_configs
   = Some (Some 4, True, [''c1'', ''c3'', ''c4''])
   \<and> map_option
     (\<lambda>rw. (fst rw, fwd_list (tqe_next (snd rw)) (tqh_first (snd rw) (Configs 1)) [2, 5, 4],
            map (name_of (snd rw)) [2, 5, 4], tqe_next (snd rw) 3, tqe_prev (snd rw) 5,
            3 \<in> live (snd rw)))
     four_configs
   = Some (Some 5, True, [''c1'', ''c2'', ''c4''], Some 5, Node_next 3, True)"
  by (simp add: four_configs_def three_configs_def eval_defs)

text \<open>
  C4 fails on the code for bindings. In the example tree, binding \<^verbatim>\<open>ecm.usb0\<close> to
  \<^verbatim>\<open>c1\<close> under the name \<^verbatim>\<open>b2\<close> when \<^verbatim>\<open>symlink\<close> fails returns -1 and inserts
  nothing, and the block allocated for the binding (block 6) is still allocated
  afterwards: nothing else of the world has changed but the record of the
  \<^verbatim>\<open>symlink\<close> call.
\<close>

theorem add_config_function_leaks_binding:
  "usbg_add_config_function no_symlink_env (Some 4) ''b2'' (Some 3) tree_world
   = Some (-1, tree_world\<lparr>brk := 7, live := insert 6 (live tree_world),
        fs_calls := fs_calls tree_world
          @ [Symlink ''/cfg/g1/functions/ecm.usb0'' ''/cfg/g1/configs/c1/b2'']\<rparr>)
   \<and> 6 \<notin> live tree_world"
  by (simp add: tree_world_def no_symlink_env_def eval_defs)

text \<open>
  What holds of C4: when \<^verbatim>\<open>mkdir\<close> fails, \<^verbatim>\<open>usbg_create_gadget\<close>,
  \<^verbatim>\<open>usbg_create_function\<close> and \<^verbatim>\<open>usbg_create_config\<close> return NULL, the block they
  allocated is free again, and the queue of the owner and the links of all nodes are
  as before.
\<close>

lemma mkdir_failure_releases_node:
  assumes "malloc_ok e (brk w)" "brk w \<notin> live w"
  shows "usbg_get_gadget w s name = Some None \<Longrightarrow> \<not> mkdir_ok e (path_of w s @ ''/'' @ name) \<Longrightarrow>
      \<exists>w'. usbg_create_gadget e (Some s) name g_attrs g_strs w = Some (None, w')
        \<and> live w' = live w \<and> tqe_next w' = tqe_next w \<and> tqe_prev w' = tqe_prev w
        \<and> tqh_first w' (Gadgets s) = tqh_first w (Gadgets s)
        \<and> tqh_last w' (Gadgets s) = tqh_last w (Gadgets s)"
    and "function_name type = Some tn \<Longrightarrow> usbg_get_function w g (tn @ ''.'' @ instance) = Some None \<Longrightarrow>
      \<not> mkdir_ok e (path_of w g @ ''/'' @ name_of w g @ ''/'' @ ''functions'' @ ''/''
                      @ tn @ ''.'' @ instance) \<Longrightarrow>
      \<exists>w'. usbg_create_function e (Some g) type instance f_attrs w = Some (None, w')
        \<and> live w' = live w \<and> tqe_next w' = tqe_next w \<and> tqe_prev w' = tqe_prev w
        \<and> tqh_first w' = tqh_first w \<and> tqh_last w' = tqh_last w"
    and "usbg_get_config w g name = Some None \<Longrightarrow>
      \<not> mkdir_ok e (path_of w g @ ''/'' @ name_of w g @ ''/'' @ ''configs'' @ ''/'' @ name) \<Longrightarrow>
      \<exists>w'. usbg_create_config e (Some g) name c_attrs c_strs w = Some (None, w')
        \<and> live w' = live w \<and> tqe_next w' = tqe_next w \<and> tqe_prev w' = tqe_prev w
        \<and> tqh_first w' (Configs g) = tqh_first w (Configs g)
        \<and> tqh_last w' (Configs g) = tqh_last w (Configs g)"
  using assms
  by (simp_all add: usbg_create_gadget_def usbg_create_empty_gadget_def
      usbg_create_function_def usbg_create_config_def malloc_def free_def log_call_def
      TAILQ_INIT_def Let_def)

section \<open>Properties of the queues\<close>

lemma fwd_list_unique: "fwd_list nxt p xs \<Longrightarrow> fwd_list nxt p ys \<Longrightarrow> xs = ys"
proof (induction xs arbitrary: p ys)
  case Nil
  then show ?case by (cases ys) auto
next
  case (Cons x xs)
  then show ?case by (cases ys) auto
qed

lemma fwd_list_suffix: "fwd_list nxt p (as @ x # bs) \<Longrightarrow> fwd_list nxt (nxt x) bs"
  by (induction as arbitrary: p) auto

text \<open>A queue visits no element twice.\<close>

lemma fwd_list_distinct: "fwd_list nxt p xs \<Longrightarrow> distinct xs"
proof (induction xs arbitrary: p)
  case Nil
  show ?case by simp
next
  case (Cons x xs)
  then have tl: "fwd_list nxt (nxt x) xs" by simp
  have "x \<notin> set xs"
  proof
    assume "x \<in> set xs"
    then obtain as bs where s: "xs = as @ x # bs" by (auto simp: in_set_conv_decomp)
    with tl have "fwd_list nxt (nxt x) bs" by (auto dest: fwd_list_suffix)
    with tl have "xs = bs" by (rule fwd_list_unique)
    with s show False by simp
  qed
  with Cons.IH [OF tl] show ?case by simp
qed

lemma fwd_list_cong:
  "(\<And>x. x \<in> set xs \<Longrightarrow> nxt' x = nxt x) \<Longrightarrow> fwd_list nxt' p xs = fwd_list nxt p xs"
  by (induction xs arbitrary: p) auto

lemma chain_fwd_list: "chain w s xs l \<Longrightarrow> fwd_list (tqe_next w) (rd_slot w s) xs"
proof (induction xs arbitrary: s)
  case Nil
  then show ?case by simp
next
  case (Cons x xs)
  then have "fwd_list (tqe_next w) (rd_slot w (Node_next x)) xs" by simp
  with Cons.prems show ?case by (simp add: rd_slot_def)
qed

lemma tailq_fwd_list: "tailq w h xs \<Longrightarrow> fwd_list (tqe_next w) (tqh_first w h) xs"
  unfolding tailq_def by (drule chain_fwd_list) (simp add: rd_slot_def)


lemma chain_end_None: "chain w s xs l \<Longrightarrow> rd_slot w l = None"
  by (induction xs arbitrary: s) auto

text \<open>A chain reads the slot it starts from and the two links of its elements only.\<close>

lemma chain_cong:
  assumes "rd_slot w' s = rd_slot w s"
    and "\<And>x. x \<in> set xs \<Longrightarrow> tqe_next w' x = tqe_next w x \<and> tqe_prev w' x = tqe_prev w x"
  shows "chain w' s xs l = chain w s xs l"
  using assms
proof (induction xs arbitrary: s)
  case Nil
  then show ?case by simp
next
  case (Cons x xs)
  have "rd_slot w' (Node_next x) = rd_slot w (Node_next x)"
    using Cons.prems(2) [of x] by (simp add: rd_slot_def)
  then have "chain w' (Node_next x) xs l = chain w (Node_next x) xs l"
    using Cons.prems(2) by (intro Cons.IH) auto
  with Cons.prems show ?case by auto
qed

lemma tailq_cong:
  assumes "tqh_first w' h = tqh_first w h" "tqh_last w' h = tqh_last w h"
    and "\<And>x. x \<in> set xs \<Longrightarrow> tqe_next w' x = tqe_next w x \<and> tqe_prev w' x = tqe_prev w x"
  shows "tailq w' h xs = tailq w h xs"
  unfolding tailq_def assms(2)
  by (rule chain_cong) (use assms in \<open>auto simp: rd_slot_def\<close>)

text \<open>The first three statements of \<^verbatim>\<open>TAILQ_INSERT_TAIL\<close> extend a chain that ends at the
  slot \<open>l\<close> by the element.\<close>

lemma chain_append:
  assumes "chain w s xs l" "elm \<notin> set xs" "s \<noteq> Node_next elm"
  shows "chain (wr_slot l (Some elm)
           (w\<lparr>tqe_next := (tqe_next w)(elm := None), tqe_prev := (tqe_prev w)(elm := l)\<rparr>))
           s (xs @ [elm]) (Node_next elm)"
  using assms
proof (induction xs arbitrary: s)
  case Nil
  then show ?case by (cases s) (auto simp: rd_slot_def wr_slot_def)
next
  case (Cons x xs)
  let ?w = "wr_slot l (Some elm)
           (w\<lparr>tqe_next := (tqe_next w)(elm := None), tqe_prev := (tqe_prev w)(elm := l)\<rparr>)"
  from Cons.prems have x: "rd_slot w s = Some x" "tqe_prev w x = s"
    and tl: "chain w (Node_next x) xs l" and ne: "elm \<noteq> x" "elm \<notin> set xs" by auto
  from tl have "rd_slot w l = None" by (rule chain_end_None)
  with x have "l \<noteq> s" by auto
  with x Cons.prems(3) have 1: "rd_slot ?w s = Some x"
    by (cases s; cases l) (auto simp: rd_slot_def wr_slot_def)
  from ne x have 2: "tqe_prev ?w x = s" by (cases l) (auto simp: wr_slot_def)
  from ne have "Node_next x \<noteq> Node_next elm" by simp
  with tl ne have 3: "chain ?w (Node_next x) (xs @ [elm]) (Node_next elm)" by (intro Cons.IH)
  show ?case unfolding append_Cons chain.simps using 1 2 3 by blast
qed

lemma TAILQ_INSERT_TAIL_tailq:
  assumes "tailq w h xs" "elm \<notin> set xs"
  shows "tailq (TAILQ_INSERT_TAIL h elm w) h (xs @ [elm])"
proof -
  let ?w = "wr_slot (tqh_last w h) (Some elm)
           (w\<lparr>tqe_next := (tqe_next w)(elm := None),
              tqe_prev := (tqe_prev w)(elm := tqh_last w h)\<rparr>)"
  have "chain ?w (Head_first h) (xs @ [elm]) (Node_next elm)"
    using assms unfolding tailq_def by (intro chain_append) auto
  moreover have "chain (?w\<lparr>tqh_last := (tqh_last ?w)(h := Node_next elm)\<rparr>) (Head_first h)
      (xs @ [elm]) (Node_next elm) = chain ?w (Head_first h) (xs @ [elm]) (Node_next elm)"
    by (rule chain_cong) (auto simp: rd_slot_def)
  moreover have "TAILQ_INSERT_TAIL h elm w = ?w\<lparr>tqh_last := (tqh_last ?w)(h := Node_next elm)\<rparr>"
    by (cases "tqh_last w h") (simp_all add: TAILQ_INSERT_TAIL_def wr_slot_def Let_def)
  ultimately show ?thesis by (simp add: tailq_def)
qed

text \<open>\<^verbatim>\<open>TAILQ_INSERT_TAIL\<close> writes links only.\<close>

lemma TAILQ_INSERT_TAIL_fields [simp]:
  "brk (TAILQ_INSERT_TAIL h elm w) = brk w"
  "live (TAILQ_INSERT_TAIL h elm w) = live w"
  "name_of (TAILQ_INSERT_TAIL h elm w) = name_of w"
  "path_of (TAILQ_INSERT_TAIL h elm w) = path_of w"
  "udc_of (TAILQ_INSERT_TAIL h elm w) = udc_of w"
  "parent_of (TAILQ_INSERT_TAIL h elm w) = parent_of w"
  "target_of (TAILQ_INSERT_TAIL h elm w) = target_of w"
  "ftype_of (TAILQ_INSERT_TAIL h elm w) = ftype_of w"
  "fs_calls (TAILQ_INSERT_TAIL h elm w) = fs_calls w"
  by (simp_all add: TAILQ_INSERT_TAIL_def wr_slot_def Let_def split: slot.splits)

section \<open>Properties of loading functions\<close>

lemma parse_functions_loop_failed:
  "ret \<noteq> USBG_SUCCESS \<Longrightarrow> parse_functions_loop e g fpath ds (ret, w) = (ret, w)"
  by (induction ds) (simp_all add: parse_function_entry_def)

lemma parse_function_entry_failure:
  "\<not> malloc_ok e (brk w) \<Longrightarrow>
   parse_function_entry e g fpath d (USBG_SUCCESS, w) = (USBG_ERROR_NO_MEM, w\<lparr>brk := brk w + 1\<rparr>)"
  by (simp add: parse_function_entry_def malloc_def)

lemma parse_function_entry_success:
  assumes "tailq w (Functions g) fs" "\<forall>x \<in> set fs. x < brk w" "malloc_ok e (brk w)"
  shows "\<exists>w'. parse_function_entry e g fpath d (USBG_SUCCESS, w) = (USBG_SUCCESS, w')
     \<and> tailq w' (Functions g) (fs @ [brk w]) \<and> brk w' = brk w + 1
     \<and> name_of w' = (name_of w)(brk w := d_name d)
     \<and> ftype_of w' = (ftype_of w)(brk w := usbg_lookup_function_type (strtok_dot (d_name d)))"
proof -
  let ?w5 = "w\<lparr>brk := brk w + 1, live := insert (brk w) (live w),
      parent_of := (parent_of w)(brk w := g), name_of := (name_of w)(brk w := d_name d),
      path_of := (path_of w)(brk w := fpath),
      ftype_of := (ftype_of w)(brk w := usbg_lookup_function_type (strtok_dot (d_name d)))\<rparr>"
  have e: "parse_function_entry e g fpath d (USBG_SUCCESS, w)
      = (USBG_SUCCESS, TAILQ_INSERT_TAIL (Functions g) (brk w) ?w5)"
    using assms(3) by (simp add: parse_function_entry_def malloc_def Let_def)
  have "tailq ?w5 (Functions g) fs = tailq w (Functions g) fs"
    by (rule tailq_cong) simp_all
  with assms(1) have "tailq ?w5 (Functions g) fs" by simp
  moreover have "brk w \<notin> set fs" using assms(2) by auto
  ultimately have "tailq (TAILQ_INSERT_TAIL (Functions g) (brk w) ?w5) (Functions g) (fs @ [brk w])"
    by (rule TAILQ_INSERT_TAIL_tailq)
  with e show ?thesis by simp
qed

lemma parse_functions_loop_success:
  assumes "parse_functions_loop e g fpath ds (USBG_SUCCESS, w) = (USBG_SUCCESS, w')"
    and "tailq w (Functions g) fs" "\<forall>x \<in> set fs. x < brk w"
  shows "tailq w' (Functions g) (fs @ [brk w ..< brk w + length ds])
     \<and> brk w' = brk w + length ds
     \<and> (\<forall>i < length ds. name_of w' (brk w + i) = d_name (ds ! i)
          \<and> ftype_of w' (brk w + i) = usbg_lookup_function_type (strtok_dot (d_name (ds ! i))))
     \<and> (\<forall>x < brk w. name_of w' x = name_of w x \<and> ftype_of w' x = ftype_of w x)"
  using assms
proof (induction ds arbitrary: w fs)
  case Nil
  then show ?case by simp
next
  case (Cons d ds)
  show ?case
  proof (cases "malloc_ok e (brk w)")
    case False
    then have "parse_functions_loop e g fpath (d # ds) (USBG_SUCCESS, w)
        = (USBG_ERROR_NO_MEM, w\<lparr>brk := brk w + 1\<rparr>)"
      by (simp add: parse_function_entry_failure parse_functions_loop_failed)
    with Cons.prems(1) show ?thesis by simp
  next
    case True
    from parse_function_entry_success [OF Cons.prems(2,3) True, of fpath d]
    obtain w1 where w1: "parse_function_entry e g fpath d (USBG_SUCCESS, w) = (USBG_SUCCESS, w1)"
      "tailq w1 (Functions g) (fs @ [brk w])" "brk w1 = brk w + 1"
      "name_of w1 = (name_of w)(brk w := d_name d)"
      "ftype_of w1 = (ftype_of w)(brk w := usbg_lookup_function_type (strtok_dot (d_name d)))"
      by blast
    from Cons.prems(1) w1(1)
    have l: "parse_functions_loop e g fpath ds (USBG_SUCCESS, w1) = (USBG_SUCCESS, w')" by simp
    have b: "\<forall>x \<in> set (fs @ [brk w]). x < brk w1" using Cons.prems(3) w1(3) by auto
    note ih = Cons.IH [OF l w1(2) b]
    have u: "[brk w ..< brk w + length (d # ds)] = brk w # [brk w1 ..< brk w1 + length ds]"
      unfolding w1(3) by (subst upt_conv_Cons) simp_all
    have q: "tailq w' (Functions g) (fs @ [brk w ..< brk w + length (d # ds)])"
      unfolding u using ih by simp
    have n: "brk w' = brk w + length (d # ds)" using ih w1(3) by simp
    have old: "\<forall>x < brk w. name_of w' x = name_of w x \<and> ftype_of w' x = ftype_of w x"
      using ih w1(3,4,5) by simp
    have new: "name_of w' (brk w + i) = d_name ((d # ds) ! i)
          \<and> ftype_of w' (brk w + i) = usbg_lookup_function_type (strtok_dot (d_name ((d # ds) ! i)))"
      if "i < length (d # ds)" for i
    proof (cases i)
      case 0
      with ih w1(3,4,5) show ?thesis by simp
    next
      case (Suc j)
      with that have "j < length ds" by simp
      with ih have "name_of w' (brk w1 + j) = d_name (ds ! j)
          \<and> ftype_of w' (brk w1 + j) = usbg_lookup_function_type (strtok_dot (d_name (ds ! j)))"
        by blast
      with Suc w1(3) show ?thesis by simp
    qed
    from q n old new show ?thesis by blast
  qed
qed

lemma strtok_dot_no_dot: "strtok_dot s = Some t \<Longrightarrow> CHR ''.'' \<notin> set t"
  by (auto simp: strtok_dot_def Let_def split: if_splits dest: set_takeWhileD)

lemma find_upt_name:
  assumes "\<forall>i < n. nm (b + i) = names ! i" "i < n" "length names = n"
  shows "\<exists>j < n. List.find (\<lambda>f. nm f = names ! i) [b ..< b + n] = Some (b + j) \<and> names ! j = names ! i
          \<and> (distinct names \<longrightarrow> j = i)"
proof -
  let ?P = "\<lambda>f. nm f = names ! i"
  have "b + i \<in> set [b ..< b + n]" "?P (b + i)" using assms by auto
  then obtain y where y: "List.find ?P [b ..< b + n] = Some y"
    using find_member [of "b + i" "[b ..< b + n]" ?P] by blast
  then have "?P y" "y \<in> set [b ..< b + n]" by (auto simp: find_Some_iff)
  then obtain j where j: "y = b + j" "j < n" by (auto simp: nat_le_iff_add)
  with \<open>?P y\<close> assms(1) have "names ! j = names ! i" by auto
  moreover have "distinct names \<longrightarrow> j = i"
    using calculation j(2) assms(2,3) by (auto simp: nth_eq_iff_index_eq)
  ultimately show ?thesis using y j by blast
qed

lemma usbg_translate_error_not_success [simp]: "usbg_translate_error err \<noteq> USBG_SUCCESS"
  by (cases err) simp_all

text \<open>
  C9. When \<^verbatim>\<open>usbg_parse_functions\<close> succeeds on a gadget whose queue of functions is
  empty, the queue holds one function per entry of the directory listing, in order,
  in the blocks allocated from \<open>brk w\<close> on. The name stored in each is the full entry
  name, its type is looked up from the text before the first dot, and
  \<^verbatim>\<open>usbg_get_function\<close> on the full name returns a function of that name, the
  function of the entry itself when the listing has no name twice. When the entry name
  has a dot, its dot-prefix differs from the stored name and
  \<^verbatim>\<open>usbg_get_function\<close> on the prefix does not return the function of the entry.
\<close>

theorem parse_functions_stores_full_name:
  assumes "tailq w (Functions g) []"
    and "usbg_parse_functions e path g w = (USBG_SUCCESS, w')"
  shows "\<exists>ds. scandir e (path3 path (name_of w g) ''functions'') file_select = Inr ds
     \<and> tailq w' (Functions g) [brk w ..< brk w + length ds]
     \<and> (\<forall>i < length ds.
          name_of w' (brk w + i) = d_name (ds ! i)
        \<and> ftype_of w' (brk w + i) = usbg_lookup_function_type (strtok_dot (d_name (ds ! i)))
        \<and> (\<exists>f. usbg_get_function w' g (d_name (ds ! i)) = Some (Some f)
               \<and> name_of w' f = d_name (ds ! i))
        \<and> (distinct (map d_name ds) \<longrightarrow>
              usbg_get_function w' g (d_name (ds ! i)) = Some (Some (brk w + i)))
        \<and> (\<forall>t. CHR ''.'' \<in> set (d_name (ds ! i)) \<and> strtok_dot (d_name (ds ! i)) = Some t \<longrightarrow>
              t \<noteq> d_name (ds ! i)
              \<and> usbg_get_function w' g t \<noteq> Some (Some (brk w + i))))"
proof (cases "scandir e (path3 path (name_of w g) ''functions'') file_select")
  case (Inl err)
  with assms(2) show ?thesis by (simp add: usbg_parse_functions_def)
next
  case (Inr ds)
  let ?n = "length ds" and ?b = "brk w"
  from Inr assms(2)
  have "parse_functions_loop e g (path3 path (name_of w g) ''functions'') ds (USBG_SUCCESS, w)
      = (USBG_SUCCESS, w')"
    by (simp add: usbg_parse_functions_def)
  from parse_functions_loop_success [OF this assms(1)]
  have q: "tailq w' (Functions g) [?b ..< ?b + ?n]"
    and nm: "\<forall>i < ?n. name_of w' (?b + i) = d_name (ds ! i)"
    and ty: "\<forall>i < ?n. ftype_of w' (?b + i)
               = usbg_lookup_function_type (strtok_dot (d_name (ds ! i)))"
    by simp_all
  have get: "usbg_get_function w' g s
      = Some (List.find (\<lambda>f. name_of w' f = s) [?b ..< ?b + ?n])" for s
    using tailq_find_fwd_list [OF tailq_fwd_list [OF q]]
    by (simp add: usbg_get_function_def strcmp_eq_0_iff)
  have per: "name_of w' (?b + i) = d_name (ds ! i)
        \<and> ftype_of w' (?b + i) = usbg_lookup_function_type (strtok_dot (d_name (ds ! i)))
        \<and> (\<exists>f. usbg_get_function w' g (d_name (ds ! i)) = Some (Some f)
               \<and> name_of w' f = d_name (ds ! i))
        \<and> (distinct (map d_name ds) \<longrightarrow>
              usbg_get_function w' g (d_name (ds ! i)) = Some (Some (?b + i)))
        \<and> (\<forall>t. CHR ''.'' \<in> set (d_name (ds ! i)) \<and> strtok_dot (d_name (ds ! i)) = Some t \<longrightarrow>
              t \<noteq> d_name (ds ! i)
              \<and> usbg_get_function w' g t \<noteq> Some (Some (?b + i)))"
    if i: "i < ?n" for i
  proof -
    have m: "\<forall>j < ?n. name_of w' (?b + j) = map d_name ds ! j" using nm by simp
    from find_upt_name [OF m i] i
    obtain j where j: "j < ?n"
      "List.find (\<lambda>f. name_of w' f = d_name (ds ! i)) [?b ..< ?b + ?n] = Some (?b + j)"
      "d_name (ds ! j) = d_name (ds ! i)" "distinct (map d_name ds) \<longrightarrow> j = i"
      by auto
    have a: "\<exists>f. usbg_get_function w' g (d_name (ds ! i)) = Some (Some f)
               \<and> name_of w' f = d_name (ds ! i)"
      using j nm by (auto simp: get)
    have b: "distinct (map d_name ds) \<longrightarrow>
              usbg_get_function w' g (d_name (ds ! i)) = Some (Some (?b + i))"
      using j by (auto simp: get)
    have c: "t \<noteq> d_name (ds ! i) \<and> usbg_get_function w' g t \<noteq> Some (Some (?b + i))"
      if t: "CHR ''.'' \<in> set (d_name (ds ! i)) \<and> strtok_dot (d_name (ds ! i)) = Some t" for t
    proof -
      from t have ne: "t \<noteq> d_name (ds ! i)" by (auto dest: strtok_dot_no_dot)
      have "usbg_get_function w' g t \<noteq> Some (Some (?b + i))"
      proof
        assume "usbg_get_function w' g t = Some (Some (?b + i))"
        then have "List.find (\<lambda>f. name_of w' f = t) [?b ..< ?b + ?n] = Some (?b + i)"
          by (simp add: get)
        then have "name_of w' (?b + i) = t" by (auto simp: find_Some_iff)
        with nm i ne show False by simp
      qed
      with ne show ?thesis by simp
    qed
    from nm ty i a b c show ?thesis by blast
  qed
  from Inr q per show ?thesis by blast
qed

lemma functions_env_scandir:
  "scandir functions_env ''/cfg/g1/functions'' file_select
   = Inr [\<lparr>d_name = ''acm.0'', d_type = DT_DIR\<rparr>, \<lparr>d_name = ''ecm.usb0'', d_type = DT_DIR\<rparr>]"
  by (simp add: scandir_def functions_env_def file_select_def alphasort_def)

lemma functions_env_path:
  "path3 ''/cfg'' (name_of bound_gadget_world 1) ''functions'' = ''/cfg/g1/functions''"
  by (simp add: path3_def bound_gadget_world_def)

lemma functions_env_parse:
  "fst (usbg_parse_functions functions_env ''/cfg'' 1 bound_gadget_world) = USBG_SUCCESS"
proof -
  have m: "malloc_ok functions_env n" for n by (simp add: functions_env_def plain_env_def)
  show ?thesis
    unfolding usbg_parse_functions_def functions_env_path Let_def functions_env_scandir
    by (simp add: parse_function_entry_def malloc_def m Let_def)
qed

theorem parse_functions_stores_full_name_witness:
  "tailq bound_gadget_world (Functions 1) []
   \<and> fst (usbg_parse_functions functions_env ''/cfg'' 1 bound_gadget_world) = USBG_SUCCESS
   \<and> name_of (snd (usbg_parse_functions functions_env ''/cfg'' 1 bound_gadget_world)) 3 = ''ecm.usb0''
   \<and> ftype_of (snd (usbg_parse_functions functions_env ''/cfg'' 1 bound_gadget_world)) 3 = F_ECM
   \<and> usbg_get_function (snd (usbg_parse_functions functions_env ''/cfg'' 1 bound_gadget_world))
        1 ''ecm.usb0'' = Some (Some 3)
   \<and> strtok_dot ''ecm.usb0'' = Some ''ecm''
   \<and> usbg_get_function (snd (usbg_parse_functions functions_env ''/cfg'' 1 bound_gadget_world))
        1 ''ecm'' \<noteq> Some (Some 3)"
proof -
  let ?w = "snd (usbg_parse_functions functions_env ''/cfg'' 1 bound_gadget_world)"
  let ?ds = "[\<lparr>d_name = ''acm.0'', d_type = DT_DIR\<rparr>, \<lparr>d_name = ''ecm.usb0'', d_type = DT_DIR\<rparr>]"
  have q: "tailq bound_gadget_world (Functions 1) []"
    by (simp add: tailq_def bound_gadget_world_def state_world_def rd_slot_def)
  have r: "usbg_parse_functions functions_env ''/cfg'' 1 bound_gadget_world = (USBG_SUCCESS, ?w)"
    using functions_env_parse by (simp add: prod_eq_iff)
  have b: "brk bound_gadget_world = 2" by (simp add: bound_gadget_world_def)
  have tok: "strtok_dot ''ecm.usb0'' = Some ''ecm''" by (simp add: strtok_dot_def)
  from parse_functions_stores_full_name [OF q r] functions_env_scandir functions_env_path
  have all: "\<forall>i < length ?ds.
          name_of ?w (2 + i) = d_name (?ds ! i)
        \<and> ftype_of ?w (2 + i) = usbg_lookup_function_type (strtok_dot (d_name (?ds ! i)))
        \<and> (distinct (map d_name ?ds) \<longrightarrow>
              usbg_get_function ?w 1 (d_name (?ds ! i)) = Some (Some (2 + i)))
        \<and> (\<forall>t. CHR ''.'' \<in> set (d_name (?ds ! i)) \<and> strtok_dot (d_name (?ds ! i)) = Some t \<longrightarrow>
              t \<noteq> d_name (?ds ! i)
              \<and> usbg_get_function ?w 1 t \<noteq> Some (Some (2 + i)))"
    unfolding b by auto
  have "(1::nat) < length ?ds" by simp
  with all have one: "name_of ?w (2 + 1) = d_name (?ds ! 1)
        \<and> ftype_of ?w (2 + 1) = usbg_lookup_function_type (strtok_dot (d_name (?ds ! 1)))
        \<and> (distinct (map d_name ?ds) \<longrightarrow>
              usbg_get_function ?w 1 (d_name (?ds ! 1)) = Some (Some (2 + 1)))
        \<and> (\<forall>t. CHR ''.'' \<in> set (d_name (?ds ! 1)) \<and> strtok_dot (d_name (?ds ! 1)) = Some t \<longrightarrow>
              t \<noteq> d_name (?ds ! 1)
              \<and> usbg_get_function ?w 1 t \<noteq> Some (Some (2 + 1)))"
    by blast
  from one tok have "name_of ?w 3 = ''ecm.usb0''" "ftype_of ?w 3 = F_ECM"
    "usbg_get_function ?w 1 ''ecm.usb0'' = Some (Some 3)"
    "usbg_get_function ?w 1 ''ecm'' \<noteq> Some (Some 3)"
    by (simp_all add: usbg_lookup_function_type_def function_names_def F_ECM_def)
  with q functions_env_parse tok show ?thesis by simp
qed

section \<open>Properties of loading bindings\<close>

lemma chain_end: "chain w s xs l \<Longrightarrow> l = (if xs = [] then s else Node_next (last xs))"
  by (induction xs arbitrary: s) auto

lemma tailq_last:
  "tailq w h xs \<Longrightarrow> tqh_last w h = (if xs = [] then Head_first h else Node_next (last xs))"
  unfolding tailq_def by (rule chain_end)

text \<open>Appending to a queue leaves the links of every node outside it, and every other
  head, as they were.\<close>

lemma TAILQ_INSERT_TAIL_frame:
  assumes "tailq w h xs"
  shows "a \<noteq> elm \<Longrightarrow> a \<notin> set xs \<Longrightarrow> tqe_next (TAILQ_INSERT_TAIL h elm w) a = tqe_next w a"
    and "a \<noteq> elm \<Longrightarrow> tqe_prev (TAILQ_INSERT_TAIL h elm w) a = tqe_prev w a"
    and "h' \<noteq> h \<Longrightarrow> tqh_first (TAILQ_INSERT_TAIL h elm w) h' = tqh_first w h'"
    and "h' \<noteq> h \<Longrightarrow> tqh_last (TAILQ_INSERT_TAIL h elm w) h' = tqh_last w h'"
  using tailq_last [OF assms]
  by (auto simp: TAILQ_INSERT_TAIL_def wr_slot_def Let_def split: if_splits)

lemma parse_binding_entry_readlink_fails:
  "readlink_of e (bpath @ ''/'' @ d_name d) = Inl err \<Longrightarrow>
   parse_binding_entry e c g bpath d (ret, w) = Some (usbg_translate_error err, w)"
  by (simp add: parse_binding_entry_def)


lemma parse_binding_entry_links:
  assumes fs: "fwd_list (tqe_next w) (tqh_first w (Functions g)) fs"
    and bs: "tailq w (Bindings c) bs"
    and old: "\<forall>x \<in> set fs \<union> set bs. x < brk w"
    and disj: "set fs \<inter> set bs = {}"
    and seg: "link_target_name e bpath d = Some seg"
    and m: "malloc_ok e (brk w)"
  shows "\<exists>w'. parse_binding_entry e c g bpath d (ret, w) = Some (ret, w')
     \<and> tailq w' (Bindings c) (bs @ [brk w]) \<and> brk w' = brk w + 1
     \<and> fwd_list (tqe_next w') (tqh_first w' (Functions g)) fs
     \<and> name_of w' = (name_of w)(brk w := d_name d)
     \<and> target_of w' = (target_of w)(brk w := List.find (\<lambda>f. name_of w f = seg) fs)"
proof -
  let ?t = "List.find (\<lambda>f. name_of w f = seg) fs"
  let ?w5 = "w\<lparr>brk := brk w + 1, live := insert (brk w) (live w),
      name_of := (name_of w)(brk w := d_name d), path_of := (path_of w)(brk w := bpath),
      target_of := (target_of w)(brk w := ?t), parent_of := (parent_of w)(brk w := c)\<rparr>"
  let ?w' = "TAILQ_INSERT_TAIL (Bindings c) (brk w) ?w5"
  from seg obtain bytes where rl: "readlink_of e (bpath @ ''/'' @ d_name d) = Inr bytes"
    "after_last_slash (c_str bytes) = Some seg"
    by (auto simp: link_target_name_def split: sum.splits)
  have "usbg_get_function w g seg = Some ?t"
    using tailq_find_fwd_list [OF fs] by (simp add: usbg_get_function_def strcmp_eq_0_iff)
  with rl m have e: "parse_binding_entry e c g bpath d (ret, w) = Some (ret, ?w')"
    by (simp add: parse_binding_entry_def malloc_def Let_def)
  have "tailq ?w5 (Bindings c) bs = tailq w (Bindings c) bs"
    by (rule tailq_cong) simp_all
  with bs have q5: "tailq ?w5 (Bindings c) bs" by simp
  have fresh: "brk w \<notin> set bs" "brk w \<notin> set fs" using old by auto
  from q5 fresh(1) have q: "tailq ?w' (Bindings c) (bs @ [brk w])"
    by (rule TAILQ_INSERT_TAIL_tailq)
  have "fwd_list (tqe_next ?w') (tqh_first w (Functions g)) fs
      = fwd_list (tqe_next w) (tqh_first w (Functions g)) fs"
  proof (rule fwd_list_cong)
    fix x assume x: "x \<in> set fs"
    with fresh disj have "x \<noteq> brk w" "x \<notin> set bs" by auto
    then show "tqe_next ?w' x = tqe_next w x"
      using TAILQ_INSERT_TAIL_frame(1) [OF q5, of x "brk w"] by simp
  qed
  moreover have "tqh_first ?w' (Functions g) = tqh_first w (Functions g)"
    using TAILQ_INSERT_TAIL_frame(3) [OF q5, of "Functions g" "brk w"] by simp
  ultimately have f: "fwd_list (tqe_next ?w') (tqh_first ?w' (Functions g)) fs"
    using fs by simp
  from e q f show ?thesis by simp
qed

lemma parse_bindings_loop_all_links:
  assumes "fwd_list (tqe_next w) (tqh_first w (Functions g)) fs"
    and "tailq w (Bindings c) bs"
    and "\<forall>x \<in> set fs \<union> set bs. x < brk w" "set fs \<inter> set bs = {}"
    and "\<forall>d \<in> set ds. link_target_name e bpath d \<noteq> None"
    and "\<forall>i < length ds. malloc_ok e (brk w + i)"
  shows "\<exists>w'. parse_bindings_loop e c g bpath ds (ret, w) = Some (ret, w')
     \<and> tailq w' (Bindings c) (bs @ [brk w ..< brk w + length ds])
     \<and> brk w' = brk w + length ds
     \<and> fwd_list (tqe_next w') (tqh_first w' (Functions g)) fs
     \<and> (\<forall>i < length ds. name_of w' (brk w + i) = d_name (ds ! i)
          \<and> target_of w' (brk w + i)
              = List.find (\<lambda>f. Some (name_of w f) = link_target_name e bpath (ds ! i)) fs)
     \<and> (\<forall>x < brk w. name_of w' x = name_of w x \<and> target_of w' x = target_of w x)"
  using assms
proof (induction ds arbitrary: w bs)
  case Nil
  then show ?case by simp
next
  case (Cons d ds)
  from Cons.prems(5) obtain seg where seg: "link_target_name e bpath d = Some seg" by auto
  from Cons.prems(6) have m: "malloc_ok e (brk w)" by fastforce
  from parse_binding_entry_links [OF Cons.prems(1-4) seg m, where ret = ret]
  obtain w1 where w1: "parse_binding_entry e c g bpath d (ret, w) = Some (ret, w1)"
    "tailq w1 (Bindings c) (bs @ [brk w])" "brk w1 = brk w + 1"
    "fwd_list (tqe_next w1) (tqh_first w1 (Functions g)) fs"
    "name_of w1 = (name_of w)(brk w := d_name d)"
    "target_of w1 = (target_of w)(brk w := List.find (\<lambda>f. name_of w f = seg) fs)"
    by blast
  have old1: "\<forall>x \<in> set fs \<union> set (bs @ [brk w]). x < brk w1"
    using Cons.prems(3) w1(3) by (auto simp: ball_Un less_SucI)
  have disj1: "set fs \<inter> set (bs @ [brk w]) = {}" using Cons.prems(3,4) by (auto simp: ball_Un)
  have l1: "\<forall>d \<in> set ds. link_target_name e bpath d \<noteq> None" using Cons.prems(5) by simp
  have m1: "\<forall>i < length ds. malloc_ok e (brk w1 + i)"
  proof (intro allI impI)
    fix i assume "i < length ds"
    then have "Suc i < length (d # ds)" by simp
    with Cons.prems(6) have "malloc_ok e (brk w + Suc i)" by blast
    then show "malloc_ok e (brk w1 + i)" by (simp add: w1(3))
  qed
  from Cons.IH [OF w1(4) w1(2) old1 disj1 l1 m1]
  obtain w' where w': "parse_bindings_loop e c g bpath ds (ret, w1) = Some (ret, w')"
    "tailq w' (Bindings c) ((bs @ [brk w]) @ [brk w1 ..< brk w1 + length ds])"
    "brk w' = brk w1 + length ds"
    "fwd_list (tqe_next w') (tqh_first w' (Functions g)) fs"
    "\<forall>i < length ds. name_of w' (brk w1 + i) = d_name (ds ! i)
          \<and> target_of w' (brk w1 + i)
              = List.find (\<lambda>f. Some (name_of w1 f) = link_target_name e bpath (ds ! i)) fs"
    "\<forall>x < brk w1. name_of w' x = name_of w1 x \<and> target_of w' x = target_of w1 x"
    by blast
  have same: "List.find (\<lambda>f. Some (name_of w1 f) = t) fs = List.find (\<lambda>f. Some (name_of w f) = t) fs"
    for t
    by (rule find_cong) (use Cons.prems(3) w1(5) in \<open>auto simp: ball_Un\<close>)
  have u: "[brk w ..< brk w + length (d # ds)] = brk w # [brk w1 ..< brk w1 + length ds]"
    unfolding w1(3) by (subst upt_conv_Cons) simp_all
  have 1: "parse_bindings_loop e c g bpath (d # ds) (ret, w) = Some (ret, w')"
    using w1(1) w'(1) by simp
  have 2: "tailq w' (Bindings c) (bs @ [brk w ..< brk w + length (d # ds)])"
    unfolding u using w'(2) by simp
  have 3: "brk w' = brk w + length (d # ds)" using w'(3) w1(3) by simp
  have 5: "\<forall>x < brk w. name_of w' x = name_of w x \<and> target_of w' x = target_of w x"
    using w'(6) w1(3,5,6) by simp
  have 4: "name_of w' (brk w + i) = d_name ((d # ds) ! i)
          \<and> target_of w' (brk w + i)
              = List.find (\<lambda>f. Some (name_of w f) = link_target_name e bpath ((d # ds) ! i)) fs"
    if "i < length (d # ds)" for i
  proof (cases i)
    case 0
    have "List.find (\<lambda>f. name_of w f = seg) fs
        = List.find (\<lambda>f. Some (name_of w f) = link_target_name e bpath d) fs"
      by (simp add: seg)
    with 0 w'(6) w1(3,5,6) show ?thesis by simp
  next
    case (Suc j)
    with that have "j < length ds" by simp
    with w'(5) same Suc w1(3) show ?thesis by simp
  qed
  from 1 2 3 w'(4) 4 5 show ?case by blast
qed

lemma parse_binding_entry_status:
  assumes "parse_binding_entry e c g bpath d (ret, w) = Some (r, w')"
    and "ret \<noteq> USBG_SUCCESS \<or> (\<exists>err. readlink_of e (bpath @ ''/'' @ d_name d) = Inl err)"
  shows "r \<noteq> USBG_SUCCESS"
  using assms
  by (auto simp: parse_binding_entry_def malloc_def Let_def
      split: sum.splits option.splits if_splits)

lemma parse_bindings_loop_status:
  assumes "parse_bindings_loop e c g bpath ds (ret, w) = Some (r, w')"
    and "ret \<noteq> USBG_SUCCESS
         \<or> (\<exists>d \<in> set ds. \<exists>err. readlink_of e (bpath @ ''/'' @ d_name d) = Inl err)"
  shows "r \<noteq> USBG_SUCCESS"
  using assms
proof (induction ds arbitrary: ret w)
  case Nil
  then show ?case by simp
next
  case (Cons d ds)
  from Cons.prems(1) obtain r1 w1
    where e1: "parse_binding_entry e c g bpath d (ret, w) = Some (r1, w1)"
      and l1: "parse_bindings_loop e c g bpath ds (r1, w1) = Some (r, w')"
    by (auto simp: bind_eq_Some_conv)
  show ?case
  proof (cases "ret \<noteq> USBG_SUCCESS \<or> (\<exists>err. readlink_of e (bpath @ ''/'' @ d_name d) = Inl err)")
    case True
    with e1 have "r1 \<noteq> USBG_SUCCESS" by (rule parse_binding_entry_status)
    with l1 show ?thesis by (intro Cons.IH [of r1 w1]) simp_all
  next
    case False
    with Cons.prems(2)
    have "\<exists>d \<in> set ds. \<exists>err. readlink_of e (bpath @ ''/'' @ d_name d) = Inl err" by auto
    with l1 show ?thesis by (intro Cons.IH [of r1 w1]) simp_all
  qed
qed

text \<open>
  Links whose target holds a slash. Let the functions of the gadget form a queue \<open>fs\<close>
  and the bindings of the config a queue \<open>bs\<close>, all in blocks allocated before. For a
  link entry whose target's last path segment names no function of the gadget (the
  target holding a slash, so that there is a last segment), the loop body of
  \<^verbatim>\<open>usbg_parse_config_bindings\<close> appends a binding of the entry's name whose target is
  NULL and leaves the status as it was, both queues staying well formed for the next
  entry. When \<^verbatim>\<open>readlink\<close> fails, the loop body sets the status to the translation
  of \<open>errno\<close>, which is never success, and changes nothing else. For the whole
  function on a config with no binding yet: when every link can be read and every
  allocation succeeds, the result is success with one binding per link, in order, the
  target of each being the function of that name if there is one and NULL otherwise;
  when \<^verbatim>\<open>readlink\<close> fails for some link, the status returned is not success.
\<close>

lemma parse_config_bindings_unresolved:
  assumes "fwd_list (tqe_next w) (tqh_first w (Functions g)) fs"
    and "tailq w (Bindings c) bs"
    and "\<forall>x \<in> set fs \<union> set bs. x < brk w" "set fs \<inter> set bs = {}"
  shows "(link_target_name e bpath d = Some seg \<and> (\<forall>f \<in> set fs. name_of w f \<noteq> seg)
          \<and> malloc_ok e (brk w) \<longrightarrow>
        (\<exists>w'. parse_binding_entry e c g bpath d (ret, w) = Some (ret, w')
           \<and> tailq w' (Bindings c) (bs @ [brk w])
           \<and> name_of w' (brk w) = d_name d \<and> target_of w' (brk w) = None
           \<and> fwd_list (tqe_next w') (tqh_first w' (Functions g)) fs
           \<and> (\<forall>f \<in> set fs. name_of w' f = name_of w f)))
     \<and> (readlink_of e (bpath @ ''/'' @ d_name d) = Inl err \<longrightarrow>
          parse_binding_entry e c g bpath d (ret, w) = Some (usbg_translate_error err, w)
          \<and> usbg_translate_error err \<noteq> USBG_SUCCESS)
     \<and> (bs = [] \<and> g = parent_of w c
          \<and> scandir e (path_of w c @ ''/'' @ name_of w c) bindings_select = Inr ds
          \<and> (\<forall>d \<in> set ds. link_target_name e (path_of w c @ ''/'' @ name_of w c) d \<noteq> None)
          \<and> (\<forall>i < length ds. malloc_ok e (brk w + i)) \<longrightarrow>
        (\<exists>w'. usbg_parse_config_bindings e c w = Some (USBG_SUCCESS, w')
           \<and> tailq w' (Bindings c) [brk w ..< brk w + length ds]
           \<and> (\<forall>i < length ds. name_of w' (brk w + i) = d_name (ds ! i)
                \<and> target_of w' (brk w + i)
                    = List.find (\<lambda>f. Some (name_of w f)
                          = link_target_name e (path_of w c @ ''/'' @ name_of w c) (ds ! i)) fs)))
     \<and> (scandir e (path_of w c @ ''/'' @ name_of w c) bindings_select = Inr ds
          \<and> (\<exists>d \<in> set ds. \<exists>err.
                readlink_of e ((path_of w c @ ''/'' @ name_of w c) @ ''/'' @ d_name d) = Inl err) \<longrightarrow>
        (\<forall>r w'. usbg_parse_config_bindings e c w = Some (r, w') \<longrightarrow> r \<noteq> USBG_SUCCESS))"
proof (intro conjI impI)
  assume a: "link_target_name e bpath d = Some seg \<and> (\<forall>f \<in> set fs. name_of w f \<noteq> seg)
          \<and> malloc_ok e (brk w)"
  then have none: "List.find (\<lambda>f. name_of w f = seg) fs = None" by (simp add: find_None_iff)
  from a parse_binding_entry_links [OF assms, of e bpath d seg ret]
  obtain w' where w': "parse_binding_entry e c g bpath d (ret, w) = Some (ret, w')"
    "tailq w' (Bindings c) (bs @ [brk w])"
    "fwd_list (tqe_next w') (tqh_first w' (Functions g)) fs"
    "name_of w' = (name_of w)(brk w := d_name d)"
    "target_of w' = (target_of w)(brk w := List.find (\<lambda>f. name_of w f = seg) fs)"
    by blast
  have "\<forall>f \<in> set fs. name_of w' f = name_of w f" using assms(3) w'(4) by (auto simp: ball_Un)
  with w' none
  show "\<exists>w'. parse_binding_entry e c g bpath d (ret, w) = Some (ret, w')
           \<and> tailq w' (Bindings c) (bs @ [brk w])
           \<and> name_of w' (brk w) = d_name d \<and> target_of w' (brk w) = None
           \<and> fwd_list (tqe_next w') (tqh_first w' (Functions g)) fs
           \<and> (\<forall>f \<in> set fs. name_of w' f = name_of w f)"
    by auto
next
  assume "readlink_of e (bpath @ ''/'' @ d_name d) = Inl err"
  then show "parse_binding_entry e c g bpath d (ret, w) = Some (usbg_translate_error err, w)"
    by (rule parse_binding_entry_readlink_fails)
next
  show "usbg_translate_error err \<noteq> USBG_SUCCESS" by simp
next
  let ?bpath = "path_of w c @ ''/'' @ name_of w c"
  assume a: "bs = [] \<and> g = parent_of w c
          \<and> scandir e ?bpath bindings_select = Inr ds
          \<and> (\<forall>d \<in> set ds. link_target_name e ?bpath d \<noteq> None)
          \<and> (\<forall>i < length ds. malloc_ok e (brk w + i))"
  then have l: "\<forall>d \<in> set ds. link_target_name e ?bpath d \<noteq> None"
    and m: "\<forall>i < length ds. malloc_ok e (brk w + i)" by simp_all
  from parse_bindings_loop_all_links [OF assms l m, of USBG_SUCCESS] a
  show "\<exists>w'. usbg_parse_config_bindings e c w = Some (USBG_SUCCESS, w')
           \<and> tailq w' (Bindings c) [brk w ..< brk w + length ds]
           \<and> (\<forall>i < length ds. name_of w' (brk w + i) = d_name (ds ! i)
                \<and> target_of w' (brk w + i)
                    = List.find (\<lambda>f. Some (name_of w f) = link_target_name e ?bpath (ds ! i)) fs)"
    by (auto simp: usbg_parse_config_bindings_def Let_def)
next
  let ?bpath = "path_of w c @ ''/'' @ name_of w c"
  assume a: "scandir e ?bpath bindings_select = Inr ds
          \<and> (\<exists>d \<in> set ds. \<exists>err. readlink_of e (?bpath @ ''/'' @ d_name d) = Inl err)"
  show "\<forall>r w'. usbg_parse_config_bindings e c w = Some (r, w') \<longrightarrow> r \<noteq> USBG_SUCCESS"
  proof (intro allI impI)
    fix r w' assume "usbg_parse_config_bindings e c w = Some (r, w')"
    with a have "parse_bindings_loop e c (parent_of w c) ?bpath ds (USBG_SUCCESS, w) = Some (r, w')"
      by (simp add: usbg_parse_config_bindings_def Let_def)
    then show "r \<noteq> USBG_SUCCESS"
      by (rule parse_bindings_loop_status) (use a in simp)
  qed
qed

lemma loading_world_queues:
  "fwd_list (tqe_next loading_world) (tqh_first loading_world (Functions 1)) [2, 3]"
  "tailq loading_world (Bindings 4) []"
  "\<forall>x \<in> set [2, 3] \<union> set []. x < brk loading_world"
  "set [2, 3] \<inter> set [] = ({} :: addr set)"
  "path_of loading_world 4 @ ''/'' @ name_of loading_world 4 = ''/cfg/g1/configs/c1''"
  "parent_of loading_world 4 = 1"
  "name_of loading_world 2 = ''acm.0''" "name_of loading_world 3 = ''ecm.usb0''"
  "brk loading_world = 5"
  by (simp_all add: loading_world_def tree_world_def tailq_def rd_slot_def)

lemma links_env_answers:
  "scandir links_env ''/cfg/g1/configs/c1'' bindings_select
     = Inr [\<lparr>d_name = ''b0'', d_type = DT_LNK\<rparr>, \<lparr>d_name = ''b1'', d_type = DT_LNK\<rparr>]"
  "link_target_name links_env ''/cfg/g1/configs/c1'' \<lparr>d_name = ''b0'', d_type = DT_LNK\<rparr>
     = Some ''ecm.usb0''"
  "link_target_name links_env ''/cfg/g1/configs/c1'' \<lparr>d_name = ''b1'', d_type = DT_LNK\<rparr>
     = Some ''rndis.usb1''"
  "malloc_ok links_env n"
  by (simp_all add: links_env_def plain_env_def scandir_def bindings_select_def alphasort_def
      link_target_name_def after_last_slash_def c_str_def)

lemma broken_link_env_answers:
  "scandir broken_link_env ''/cfg/g1/configs/c1'' bindings_select
     = Inr [\<lparr>d_name = ''b0'', d_type = DT_LNK\<rparr>, \<lparr>d_name = ''b1'', d_type = DT_LNK\<rparr>,
            \<lparr>d_name = ''b2'', d_type = DT_LNK\<rparr>]"
  "readlink_of broken_link_env (''/cfg/g1/configs/c1'' @ ''/'' @ ''b2'') = Inl EACCES"
  by (simp_all add: broken_link_env_def links_env_def plain_env_def scandir_def
      bindings_select_def alphasort_def)

lemma parse_config_bindings_unresolved_example:
  "(\<exists>w'. usbg_parse_config_bindings links_env 4 loading_world = Some (USBG_SUCCESS, w')
       \<and> tailq w' (Bindings 4) [5, 6]
       \<and> name_of w' 5 = ''b0'' \<and> target_of w' 5 = Some 3
       \<and> name_of w' 6 = ''b1'' \<and> target_of w' 6 = None)
   \<and> (\<exists>w'. parse_binding_entry links_env 4 1 ''/cfg/g1/configs/c1''
              \<lparr>d_name = ''b1'', d_type = DT_LNK\<rparr> (USBG_SUCCESS, loading_world)
            = Some (USBG_SUCCESS, w')
       \<and> tailq w' (Bindings 4) [5] \<and> name_of w' 5 = ''b1'' \<and> target_of w' 5 = None)
   \<and> parse_binding_entry broken_link_env 4 1 ''/cfg/g1/configs/c1''
        \<lparr>d_name = ''b2'', d_type = DT_LNK\<rparr> (USBG_ERROR_IO, loading_world)
      = Some (USBG_ERROR_NO_ACCESS, loading_world)
   \<and> map_option fst (usbg_parse_config_bindings broken_link_env 4 loading_world)
      \<noteq> Some USBG_SUCCESS"
proof -
  let ?b0 = "\<lparr>d_name = ''b0'', d_type = DT_LNK\<rparr>" and ?b1 = "\<lparr>d_name = ''b1'', d_type = DT_LNK\<rparr>"
    and ?b2 = "\<lparr>d_name = ''b2'', d_type = DT_LNK\<rparr>"
  let ?bpath = "''/cfg/g1/configs/c1''"
  note q = loading_world_queues(1-4)
  note lw = loading_world_queues(5-9)
  note T = parse_config_bindings_unresolved [OF q, of links_env ?bpath ?b1 "''rndis.usb1''"
        USBG_SUCCESS EIO "[?b0, ?b1]"]
  have hyp3: "[] = ([] :: addr list) \<and> 1 = parent_of loading_world 4
      \<and> scandir links_env (path_of loading_world 4 @ ''/'' @ name_of loading_world 4)
            bindings_select = Inr [?b0, ?b1]
      \<and> (\<forall>d \<in> set [?b0, ?b1]. link_target_name links_env
              (path_of loading_world 4 @ ''/'' @ name_of loading_world 4) d \<noteq> None)
      \<and> (\<forall>i < length [?b0, ?b1]. malloc_ok links_env (brk loading_world + i))"
    unfolding lw by (simp add: links_env_answers)
  have whole: "\<exists>w'. usbg_parse_config_bindings links_env 4 loading_world = Some (USBG_SUCCESS, w')
       \<and> tailq w' (Bindings 4) [5 ..< 5 + length [?b0, ?b1]]
       \<and> (\<forall>i < length [?b0, ?b1]. name_of w' (5 + i) = d_name ([?b0, ?b1] ! i)
            \<and> target_of w' (5 + i)
               = List.find (\<lambda>f. Some (name_of loading_world f)
                     = link_target_name links_env ?bpath ([?b0, ?b1] ! i)) [2, 3])"
    using T [THEN conjunct2, THEN conjunct2, THEN conjunct1, rule_format, OF hyp3]
    unfolding lw .
  then obtain w' where w': "usbg_parse_config_bindings links_env 4 loading_world
        = Some (USBG_SUCCESS, w')"
      "tailq w' (Bindings 4) [5 ..< 5 + length [?b0, ?b1]]"
      "\<forall>i < length [?b0, ?b1]. name_of w' (5 + i) = d_name ([?b0, ?b1] ! i)
            \<and> target_of w' (5 + i)
               = List.find (\<lambda>f. Some (name_of loading_world f)
                     = link_target_name links_env ?bpath ([?b0, ?b1] ! i)) [2, 3]"
    by blast
  have i0: "(0::nat) < length [?b0, ?b1]" and i1: "(1::nat) < length [?b0, ?b1]" by simp_all
  from w'(3) [rule_format, OF i0] w'(3) [rule_format, OF i1]
  have "name_of w' (5 + 0) = ''b0''" "target_of w' (5 + 0) = Some 3"
    "name_of w' (5 + 1) = ''b1''" "target_of w' (5 + 1) = None"
    by (simp_all add: lw links_env_answers)
  moreover have "[5 ..< 5 + length [?b0, ?b1]] = [5, 6 :: nat]" by (simp add: upt_rec)
  ultimately have 1: "\<exists>w'. usbg_parse_config_bindings links_env 4 loading_world
         = Some (USBG_SUCCESS, w')
       \<and> tailq w' (Bindings 4) [5, 6]
       \<and> name_of w' 5 = ''b0'' \<and> target_of w' 5 = Some 3
       \<and> name_of w' 6 = ''b1'' \<and> target_of w' 6 = None"
    using w'(1,2) by auto
  have hyp1: "link_target_name links_env ?bpath ?b1 = Some ''rndis.usb1''
      \<and> (\<forall>f \<in> set [2, 3]. name_of loading_world f \<noteq> ''rndis.usb1'')
      \<and> malloc_ok links_env (brk loading_world)"
    by (simp add: lw links_env_answers)
  have 2: "\<exists>w'. parse_binding_entry links_env 4 1 ?bpath ?b1 (USBG_SUCCESS, loading_world)
            = Some (USBG_SUCCESS, w')
       \<and> tailq w' (Bindings 4) [5] \<and> name_of w' 5 = ''b1'' \<and> target_of w' 5 = None"
    using T [THEN conjunct1, rule_format, OF hyp1] unfolding lw by auto
  note B = parse_config_bindings_unresolved [OF q, of broken_link_env ?bpath ?b2 "[]"
        USBG_ERROR_IO EACCES "[?b0, ?b1, ?b2]"]
  have hyp2: "readlink_of broken_link_env (?bpath @ ''/'' @ d_name ?b2) = Inl EACCES"
    using broken_link_env_answers(2) by simp
  have 3: "parse_binding_entry broken_link_env 4 1 ?bpath ?b2 (USBG_ERROR_IO, loading_world)
      = Some (USBG_ERROR_NO_ACCESS, loading_world)"
    using B [THEN conjunct2, THEN conjunct1, rule_format, OF hyp2] by simp
  have hyp4: "scandir broken_link_env (path_of loading_world 4 @ ''/'' @ name_of loading_world 4)
        bindings_select = Inr [?b0, ?b1, ?b2]
      \<and> (\<exists>d \<in> set [?b0, ?b1, ?b2]. \<exists>err. readlink_of broken_link_env
            ((path_of loading_world 4 @ ''/'' @ name_of loading_world 4) @ ''/'' @ d_name d)
              = Inl err)"
    unfolding lw using broken_link_env_answers by simp
  have "\<forall>r w'. usbg_parse_config_bindings broken_link_env 4 loading_world = Some (r, w')
        \<longrightarrow> r \<noteq> USBG_SUCCESS"
    using B [THEN conjunct2, THEN conjunct2, THEN conjunct2, rule_format, OF hyp4] by blast
  then have 4: "map_option fst (usbg_parse_config_bindings broken_link_env 4 loading_world)
      \<noteq> Some USBG_SUCCESS"
    by (cases "usbg_parse_config_bindings broken_link_env 4 loading_world") auto
  from 1 2 3 4 show ?thesis by blast
qed

section \<open>What an operation leaves unchanged\<close>

lemma same_except_refl [simp]: "same_except A H w w"
  by (simp add: same_except_def)




lemma same_except_fwd_list:
  assumes "same_except A H w w'" "set xs \<inter> A = {}" "h \<notin> H"
  shows "fwd_list (tqe_next w') (tqh_first w' h) xs = fwd_list (tqe_next w) (tqh_first w h) xs"
proof -
  have "tqh_first w' h = tqh_first w h" using assms by (simp add: same_except_def)
  moreover have "fwd_list (tqe_next w') p xs = fwd_list (tqe_next w) p xs" for p
    by (rule fwd_list_cong) (use assms in \<open>auto simp: same_except_def\<close>)
  ultimately show ?thesis by simp
qed

lemma unchanged_below_refl [simp]: "unchanged_below n w w"
  by (simp add: unchanged_below_def)




text \<open>\<^verbatim>\<open>TAILQ_REMOVE\<close> writes links only.\<close>

lemma TAILQ_REMOVE_fields [simp]:
  "brk (TAILQ_REMOVE h elm w) = brk w"
  "live (TAILQ_REMOVE h elm w) = live w"
  "name_of (TAILQ_REMOVE h elm w) = name_of w"
  "path_of (TAILQ_REMOVE h elm w) = path_of w"
  "udc_of (TAILQ_REMOVE h elm w) = udc_of w"
  "parent_of (TAILQ_REMOVE h elm w) = parent_of w"
  "target_of (TAILQ_REMOVE h elm w) = target_of w"
  "ftype_of (TAILQ_REMOVE h elm w) = ftype_of w"
  "fs_calls (TAILQ_REMOVE h elm w) = fs_calls w"
  by (simp_all add: TAILQ_REMOVE_def wr_slot_def Let_def split: slot.splits option.splits)







section \<open>Properties of loading configs\<close>









section \<open>Properties of loading gadgets\<close>











section \<open>Link targets without a slash\<close>

text \<open>A link whose target has no slash has no defined outcome when the gadget has a
  function; when it has none, the entry gives a binding whose target is NULL.\<close>

lemma parse_binding_entry_bare_target:
  assumes "readlink_of e (bpath @ ''/'' @ d_name d) = Inr bytes" "CHR ''/'' \<notin> set (c_str bytes)"
  shows "tqh_first w (Functions g) \<noteq> None \<Longrightarrow> parse_binding_entry e c g bpath d (ret, w) = None"
    and "tqh_first w (Functions g) = None \<Longrightarrow> malloc_ok e (brk w) \<Longrightarrow>
      parse_binding_entry e c g bpath d (ret, w)
        = Some (ret, TAILQ_INSERT_TAIL (Bindings c) (brk w)
            (w\<lparr>brk := brk w + 1, live := insert (brk w) (live w),
               name_of := (name_of w)(brk w := d_name d), path_of := (path_of w)(brk w := bpath),
               target_of := (target_of w)(brk w := None),
               parent_of := (parent_of w)(brk w := c)\<rparr>))"
  using assms
  by (simp_all add: parse_binding_entry_def after_last_slash_def TAILQ_EMPTY_def malloc_def Let_def)

lemma bare_link_env_answers:
  "scandir bare_link_env ''/cfg/g1/configs/c1'' bindings_select
     = Inr [\<lparr>d_name = ''b0'', d_type = DT_LNK\<rparr>]"
  "readlink_of bare_link_env (''/cfg/g1/configs/c1'' @ ''/'' @ ''b0'') = Inr ''rndis.usb1''"
  "c_str ''rndis.usb1'' = ''rndis.usb1''"
  by (simp_all add: bare_link_env_def plain_env_def scandir_def bindings_select_def alphasort_def
      c_str_def)

text \<open>
  C5 fails on the code for a link whose target has no slash. The gadget of the example
  tree has the functions \<^verbatim>\<open>acm.0\<close> and \<^verbatim>\<open>ecm.usb0\<close>, and the directory of its config
  \<^verbatim>\<open>c1\<close> holds one link, \<^verbatim>\<open>b0\<close>, whose target \<^verbatim>\<open>rndis.usb1\<close> names no function of
  the gadget. \<^verbatim>\<open>strrchr(target, '/')\<close> returns NULL, \<^verbatim>\<open>target_name\<close> is
  \<^verbatim>\<open>(char *) 1\<close>, and \<^verbatim>\<open>usbg_get_function\<close> hands it to \<^verbatim>\<open>strcmp\<close> with the name of
  \<^verbatim>\<open>acm.0\<close>: the load of the bindings has no result, where the claim has a binding
  \<^verbatim>\<open>b0\<close> with an unresolved target and the status success.
\<close>

theorem parse_config_bindings_bare_target:
  "usbg_parse_config_bindings bare_link_env 4 loading_world = None"
proof -
  have f: "tqh_first loading_world (Functions 1) \<noteq> None"
    by (simp add: loading_world_def tree_world_def)
  have "CHR ''/'' \<notin> set (c_str ''rndis.usb1'')" unfolding bare_link_env_answers(3) by simp
  with bare_link_env_answers(2)
  have "parse_binding_entry bare_link_env 4 1 ''/cfg/g1/configs/c1''
      \<lparr>d_name = ''b0'', d_type = DT_LNK\<rparr> (USBG_SUCCESS, loading_world) = None"
    using f by (intro parse_binding_entry_bare_target(1)) simp_all
  then show ?thesis
    unfolding usbg_parse_config_bindings_def Let_def loading_world_queues(5,6)
      bare_link_env_answers(1)
    by simp
qed

section \<open>Properties of adding a function to a config\<close>

text \<open>The two lookups that open \<^verbatim>\<open>usbg_add_config_function\<close> return the call at once
  when either finds a binding.\<close>

lemma add_config_function_duplicate:
  assumes "fwd_list (tqe_next w) (tqh_first w (Bindings c)) bs"
    and "\<exists>b \<in> set bs. target_of w b = Some f \<or> name_of w b = name"
  shows "usbg_add_config_function e (Some c) name (Some f) w = Some (-1, w)"
proof (cases "\<exists>b \<in> set bs. name_of w b = name")
  case True
  with assms(1) obtain y where "usbg_get_binding w c name = Some (Some y)"
    unfolding usbg_get_binding_def using lookup_by_name_finds by blast
  then show ?thesis by (simp add: usbg_add_config_function_def)
next
  case False
  with assms(1) have n: "usbg_get_binding w c name = Some None"
    unfolding usbg_get_binding_def by (intro lookup_by_name_misses) auto
  from False assms(2) obtain b where "b \<in> set bs" "target_of w b = Some f" by blast
  then obtain y where "List.find (\<lambda>b. target_of w b = Some f) bs = Some y"
    using find_member [of b bs "\<lambda>b. target_of w b = Some f"] by blast
  with tailq_find_fwd_list [OF assms(1)]
  have "usbg_get_link_binding w c (Some f) = Some (Some y)"
    by (simp add: usbg_get_link_binding_def)
  with n show ?thesis by (simp add: usbg_add_config_function_def)
qed

text \<open>
  C2, as the code has it. When the config already holds a binding whose target is the
  function, or a binding of the name, \<^verbatim>\<open>usbg_add_config_function\<close> returns -1 and the
  world it returns is the world it was given: no call on the file system was made and
  the queue of bindings is as it was. If at most one binding targeted any given function
  before the call, that still holds after it, and a function that a binding targeted
  has exactly one binding.
\<close>

theorem add_config_function_rejects_duplicate:
  assumes "fwd_list (tqe_next w) (tqh_first w (Bindings c)) bs"
    and "\<exists>b \<in> set bs. target_of w b = Some f \<or> name_of w b = name"
  shows "\<exists>w'. usbg_add_config_function e (Some c) name (Some f) w = Some (-1, w')
      \<and> w' = w \<and> fs_calls w' = fs_calls w
      \<and> fwd_list (tqe_next w') (tqh_first w' (Bindings c)) bs
      \<and> (at_most_one_binding_per_function w bs \<longrightarrow>
           at_most_one_binding_per_function w' bs
           \<and> ((\<exists>b \<in> set bs. target_of w b = Some f) \<longrightarrow>
                length (filter (\<lambda>b. target_of w' b = Some f) bs) = 1))"
proof -
  have r: "usbg_add_config_function e (Some c) name (Some f) w = Some (-1, w)"
    using assms by (rule add_config_function_duplicate)
  have one: "length (filter (\<lambda>b. target_of w b = Some f) bs) = 1"
    if a: "at_most_one_binding_per_function w bs" and b: "\<exists>b \<in> set bs. target_of w b = Some f"
  proof -
    from b obtain b where b: "b \<in> set bs" "target_of w b = Some f" by blast
    from assms(1) have d: "distinct bs" by (rule fwd_list_distinct)
    have "\<forall>y \<in> set bs. target_of w y = Some f \<longrightarrow> y = b"
    proof (intro ballI impI)
      fix y assume y: "y \<in> set bs" "target_of w y = Some f"
      from a y(1) b(1) have "target_of w y \<noteq> None \<and> target_of w y = target_of w b \<longrightarrow> y = b"
        unfolding at_most_one_binding_per_function_def by blast
      with y(2) b(2) show "y = b" by simp
    qed
    with b have "{x \<in> set bs. target_of w x = Some f} = {b}" by blast
    then have "card (set (filter (\<lambda>b. target_of w b = Some f) bs)) = 1" by simp
    moreover from d have "distinct (filter (\<lambda>b. target_of w b = Some f) bs)" by simp
    then have "card (set (filter (\<lambda>b. target_of w b = Some f) bs))
        = length (filter (\<lambda>b. target_of w b = Some f) bs)"
      by (rule distinct_card)
    ultimately show ?thesis by (simp only:)
  qed
  have "usbg_add_config_function e (Some c) name (Some f) w = Some (-1, w)
      \<and> w = w \<and> fs_calls w = fs_calls w
      \<and> fwd_list (tqe_next w) (tqh_first w (Bindings c)) bs
      \<and> (at_most_one_binding_per_function w bs \<longrightarrow>
           at_most_one_binding_per_function w bs
           \<and> ((\<exists>b \<in> set bs. target_of w b = Some f) \<longrightarrow>
                length (filter (\<lambda>b. target_of w b = Some f) bs) = 1))"
    using r assms(1) one by blast
  then show ?thesis by (rule exI)
qed

theorem add_config_function_rejects_duplicate_witness:
  "fwd_list (tqe_next tree_world) (tqh_first tree_world (Bindings 4)) [5]
   \<and> target_of tree_world 5 = Some 2 \<and> name_of tree_world 5 = ''b1''
   \<and> at_most_one_binding_per_function tree_world [5]
   \<and> usbg_add_config_function plain_env (Some 4) ''b2'' (Some 2) tree_world
       = Some (-1, tree_world)
   \<and> length (filter (\<lambda>b. target_of tree_world b = Some 2) [5]) = 1
   \<and> usbg_add_config_function plain_env (Some 4) ''b1'' (Some 3) tree_world
       = Some (-1, tree_world)"
proof -
  have q: "fwd_list (tqe_next tree_world) (tqh_first tree_world (Bindings 4)) [5]"
    by (simp add: tree_world_def)
  have t: "target_of tree_world 5 = Some 2" "name_of tree_world 5 = ''b1''"
    by (simp_all add: tree_world_def)
  then have l: "\<exists>b \<in> set [5]. target_of tree_world b = Some 2 \<or> name_of tree_world b = ''b2''"
    by simp
  from t have n: "\<exists>b \<in> set [5]. target_of tree_world b = Some 3 \<or> name_of tree_world b = ''b1''"
    by simp
  have a: "at_most_one_binding_per_function tree_world [5]"
    by (simp add: at_most_one_binding_per_function_def)
  from t have x: "\<exists>b \<in> set [5]. target_of tree_world b = Some 2" by simp
  from add_config_function_rejects_duplicate [OF q l, of plain_env]
  obtain w' where w': "usbg_add_config_function plain_env (Some 4) ''b2'' (Some 2) tree_world
       = Some (-1, w')" "w' = tree_world"
    "at_most_one_binding_per_function tree_world [5] \<longrightarrow>
       at_most_one_binding_per_function w' [5]
       \<and> ((\<exists>b \<in> set [5]. target_of tree_world b = Some 2) \<longrightarrow>
            length (filter (\<lambda>b. target_of w' b = Some 2) [5]) = 1)"
    by blast
  from w'(3) a x have "length (filter (\<lambda>b. target_of w' b = Some 2) [5]) = 1" by blast
  with w'(1,2)
  have 1: "usbg_add_config_function plain_env (Some 4) ''b2'' (Some 2) tree_world
       = Some (-1, tree_world)"
    "length (filter (\<lambda>b. target_of tree_world b = Some 2) [5]) = 1"
    by simp_all
  from add_config_function_rejects_duplicate [OF q n, of plain_env]
  obtain w'' where "usbg_add_config_function plain_env (Some 4) ''b1'' (Some 3) tree_world
       = Some (-1, w'')" "w'' = tree_world"
    by blast
  then have 2: "usbg_add_config_function plain_env (Some 4) ''b1'' (Some 3) tree_world
       = Some (-1, tree_world)"
    by simp
  show ?thesis by (intro conjI q t a 1 2)
qed

lemma twin_links_env_answers:
  "scandir twin_links_env ''/cfg/g1/configs/c1'' bindings_select
     = Inr [\<lparr>d_name = ''b0'', d_type = DT_LNK\<rparr>, \<lparr>d_name = ''b1'', d_type = DT_LNK\<rparr>]"
  "link_target_name twin_links_env ''/cfg/g1/configs/c1'' \<lparr>d_name = ''b0'', d_type = DT_LNK\<rparr>
     = Some ''ecm.usb0''"
  "link_target_name twin_links_env ''/cfg/g1/configs/c1'' \<lparr>d_name = ''b1'', d_type = DT_LNK\<rparr>
     = Some ''ecm.usb0''"
  "malloc_ok twin_links_env n"
  by (simp_all add: twin_links_env_def plain_env_def scandir_def bindings_select_def alphasort_def
      link_target_name_def after_last_slash_def c_str_def)

text \<open>
  C2 as stated fails: that at most one binding of a config targets a given function
  does not hold of every config. The directory of the config \<^verbatim>\<open>c1\<close> holds the links
  \<^verbatim>\<open>b0\<close> and \<^verbatim>\<open>b1\<close>, both to the function \<^verbatim>\<open>ecm.usb0\<close> (block 3). Loading the
  bindings of \<^verbatim>\<open>c1\<close> succeeds and makes a binding for each link (blocks 5 and 6), both
  with that function as target. The call of \<^verbatim>\<open>usbg_add_config_function\<close> for the same
  function then returns -1 and changes nothing, and leaves two bindings for the
  function, not one.
\<close>

theorem loaded_bindings_share_function_counterexample:
  "map_option
     (\<lambda>(r, w). (r, tailq w (Bindings 4) [5, 6], target_of w 5, target_of w 6,
        at_most_one_binding_per_function w [5, 6],
        map_option (\<lambda>(r', w'). (r', w' = w))
          (usbg_add_config_function twin_links_env (Some 4) ''b2'' (Some 3) w),
        length (filter (\<lambda>b. target_of w b = Some 3) [5, 6])))
     (usbg_parse_config_bindings twin_links_env 4 loading_world)
   = Some (USBG_SUCCESS, True, Some 3, Some 3, False, Some (-1, True), 2)"
proof -
  let ?b0 = "\<lparr>d_name = ''b0'', d_type = DT_LNK\<rparr>" and ?b1 = "\<lparr>d_name = ''b1'', d_type = DT_LNK\<rparr>"
  let ?bpath = "''/cfg/g1/configs/c1''"
  note q = loading_world_queues(1-4)
  note lw = loading_world_queues(5-9)
  have l: "\<forall>d \<in> set [?b0, ?b1]. link_target_name twin_links_env ?bpath d \<noteq> None"
    by (simp add: twin_links_env_answers)
  have m: "\<forall>i < length [?b0, ?b1]. malloc_ok twin_links_env (brk loading_world + i)"
    by (simp add: twin_links_env_answers)
  from parse_bindings_loop_all_links [OF q l m, where ret = USBG_SUCCESS]
  obtain w where w: "parse_bindings_loop twin_links_env 4 1 ?bpath [?b0, ?b1]
        (USBG_SUCCESS, loading_world) = Some (USBG_SUCCESS, w)"
    "tailq w (Bindings 4) ([] @ [brk loading_world ..< brk loading_world + length [?b0, ?b1]])"
    "\<forall>i < length [?b0, ?b1].
        name_of w (brk loading_world + i) = d_name ([?b0, ?b1] ! i)
        \<and> target_of w (brk loading_world + i)
            = List.find (\<lambda>f. Some (name_of loading_world f)
                = link_target_name twin_links_env ?bpath ([?b0, ?b1] ! i)) [2, 3]"
    by blast
  have u: "[] @ [brk loading_world ..< brk loading_world + length [?b0, ?b1]] = [5, 6 :: nat]"
    by (simp add: lw upt_rec)
  have i0: "(0::nat) < length [?b0, ?b1]" and i1: "(1::nat) < length [?b0, ?b1]" by simp_all
  from w(3) [rule_format, OF i0] w(3) [rule_format, OF i1]
  have t: "target_of w 5 = Some 3" "target_of w 6 = Some 3"
    by (simp_all add: lw twin_links_env_answers)
  from w(2) have tq: "tailq w (Bindings 4) [5, 6]" unfolding u .
  then have fl: "fwd_list (tqe_next w) (tqh_first w (Bindings 4)) [5, 6]" by (rule tailq_fwd_list)
  from t have "\<exists>b \<in> set [5, 6]. target_of w b = Some 3 \<or> name_of w b = ''b2''" by simp
  with fl have r: "usbg_add_config_function twin_links_env (Some 4) ''b2'' (Some 3) w = Some (-1, w)"
    by (rule add_config_function_duplicate)
  have n: "\<not> at_most_one_binding_per_function w [5, 6]"
    using t by (simp add: at_most_one_binding_per_function_def)
  have p: "usbg_parse_config_bindings twin_links_env 4 loading_world = Some (USBG_SUCCESS, w)"
    unfolding usbg_parse_config_bindings_def Let_def lw twin_links_env_answers(1) sum.case
    by (rule w(1))
  show ?thesis unfolding p using tq t n r by simp
qed

section \<open>Properties of releasing and loading a gadget\<close>





section \<open>Properties of a load that fails part way\<close>







section \<open>A load that fails part way, on the example environments\<close>












end
